theory Spec2Isabelle
  imports Complex_Main "HOL-Library.AList"
begin

section \<open>Python values used by the building configurator\<close>

text \<open>
  The repository holds the same construction logic twice: as dataclasses in
  \<^verbatim>\<open>parametric_building_configurator.py\<close> and as pydantic models in \<^verbatim>\<open>api.py\<close>.
  Both copies are embedded here, function by function; the names of the second copy carry
  the prefix \<open>api_\<close>.

  Python's \<^verbatim>\<open>float\<close> is modelled by \<^typ>\<open>real\<close>: rounding, overflow to infinity and
  NaN are outside the embedding. Python's unbounded \<^verbatim>\<open>int\<close> is \<^typ>\<open>int\<close>.
  A dictionary \<^verbatim>\<open>Dict[str, float]\<close> is an association list in insertion order; its
  values are reals (an \<^verbatim>\<open>int\<close> entry such as the stud count is embedded with
  \<^term>\<open>real_of_int\<close>).
\<close>

datatype py_error =
  ValueError string | ZeroDivisionError | KeyError string | OverflowError string

text \<open>\<^verbatim>\<open>a / b\<close> on numbers raises ZeroDivisionError when \<^verbatim>\<open>b\<close> is zero.\<close>

definition py_truediv :: "real \<Rightarrow> real \<Rightarrow> py_error + real" where
  "py_truediv a b = (if b = 0 then Inl ZeroDivisionError else Inr (a / b))"

text \<open>\<^verbatim>\<open>int(x)\<close> on a float truncates towards zero.\<close>

definition py_int :: "real \<Rightarrow> int" where
  "py_int x = (if 0 \<le> x then \<lfloor>x\<rfloor> else \<lceil>x\<rceil>)"

text \<open>\<^verbatim>\<open>max(xs)\<close> raises ValueError on an empty sequence.\<close>

fun py_max :: "real list \<Rightarrow> py_error + real" where
  "py_max [] = Inl (ValueError ''max() arg is an empty sequence'')"
| "py_max (x # xs) = Inr (fold max xs x)"

text \<open>\<^verbatim>\<open>sub in s\<close> on strings: \<^verbatim>\<open>sub\<close> occurs in \<^verbatim>\<open>s\<close> as a contiguous block.\<close>

fun py_in :: "string \<Rightarrow> string \<Rightarrow> bool" where
  "py_in sub [] = (sub = [])"
| "py_in sub (c # cs) = (take (length sub) (c # cs) = sub \<or> py_in sub cs)"

subsection \<open>Dictionaries\<close>

type_synonym materials = "(string \<times> real) list"

text \<open>\<^verbatim>\<open>d[key] = v\<close> is \<^term>\<open>AList.update\<close>: an existing key keeps its place, a new key goes
  to the end. \<^verbatim>\<open>d.get(key, default)\<close> and \<^verbatim>\<open>d[key]\<close> (KeyError on a missing key):\<close>

definition dict_get :: "('k \<times> 'v) list \<Rightarrow> 'k \<Rightarrow> 'v \<Rightarrow> 'v" where
  "dict_get d key dflt = (case map_of d key of None \<Rightarrow> dflt | Some v \<Rightarrow> v)"

definition dict_item :: "(string \<times> 'v) list \<Rightarrow> string \<Rightarrow> py_error + 'v" where
  "dict_item d key = (case map_of d key of None \<Rightarrow> Inl (KeyError key) | Some v \<Rightarrow> Inr v)"

subsection \<open>Formatting numbers\<close>

definition digit_char :: "int \<Rightarrow> char" where
  "digit_char d = ''0123456789'' ! nat d"

text \<open>\<^verbatim>\<open>str(n)\<close> for an integer: the decimal digits, after a minus sign when negative.\<close>

function str_digits :: "int \<Rightarrow> string" where
  "str_digits n =
     (if n < 10 then [digit_char n] else str_digits (n div 10) @ [digit_char (n mod 10)])"
  by pat_completeness auto
termination
  by (relation "measure nat") auto

declare str_digits.simps [simp del]

definition str_int :: "int \<Rightarrow> string" where
  "str_int i = (if i < 0 then CHR ''-'' # str_digits (- i) else str_digits i)"

text \<open>
  \<^verbatim>\<open>f"{x:.2f}"\<close> and \<^verbatim>\<open>f"{x:.1f}"\<close>: fixed-point notation with \<open>prec\<close> digits after
  the point, rounded to nearest with ties to even, the sign of a negative value kept
  (\<^verbatim>\<open>-0.001\<close> prints as \<^verbatim>\<open>-0.00\<close>). On reals the tie is taken on the real value itself.
\<close>

definition round_half_even :: "real \<Rightarrow> int" where
  "round_half_even x =
     (let f = \<lfloor>x\<rfloor>; d = x - of_int f
      in if d < 1 / 2 then f else if 1 / 2 < d then f + 1 else if even f then f else f + 1)"

definition zfill :: "nat \<Rightarrow> string \<Rightarrow> string" where
  "zfill n s = replicate (n - length s) (CHR ''0'') @ s"

definition format_f :: "nat \<Rightarrow> real \<Rightarrow> string" where
  "format_f prec x =
     (let scaled = round_half_even (\<bar>x\<bar> * 10 ^ prec);
          ip = scaled div 10 ^ prec;
          fp = scaled mod 10 ^ prec
      in (if x < 0 then ''-'' else []) @ str_digits ip @
         (if prec = 0 then [] else ''.'' @ zfill prec (str_digits fp)))"

text \<open>
  \<^verbatim>\<open>f"{x}"\<close> for a float is \<^verbatim>\<open>repr(x)\<close>: the shortest decimal that reads back as
  \<^verbatim>\<open>x\<close>, with at least one digit after the point. On reals this is the decimal expansion
  itself: sixteen fractional digits with the trailing zeros removed (all but the first).
  Values without such an expansion are rounded there, and Python's exponent notation for
  very large and very small floats is not modelled.
\<close>

definition strip_zeros :: "string \<Rightarrow> string" where
  "strip_zeros s = rev (dropWhile (\<lambda>c. c = CHR ''0'') (rev s))"

definition float_repr :: "real \<Rightarrow> string" where
  "float_repr x =
     (let scaled = round_half_even (\<bar>x\<bar> * 10 ^ 16);
          ip = scaled div 10 ^ 16;
          fp = zfill 16 (str_digits (scaled mod 10 ^ 16))
      in (if x < 0 then ''-'' else []) @ str_digits ip @ ''.'' @ [hd fp] @ strip_zeros (tl fp))"

section \<open>Enumerations\<close>

datatype FramingType = STUD_2x4_16OC | STUD_2x4_24OC | STUD_2x6_16OC | STUD_2x6_24OC

fun FramingType_value :: "FramingType \<Rightarrow> string" where
  "FramingType_value STUD_2x4_16OC = ''2x4 @ 16oc''"
| "FramingType_value STUD_2x4_24OC = ''2x4 @ 24oc''"
| "FramingType_value STUD_2x6_16OC = ''2x6 @ 16oc''"
| "FramingType_value STUD_2x6_24OC = ''2x6 @ 24oc''"

datatype RoomType = BEDROOM | KITCHEN | BATHROOM | LIVING | UTILITY

fun RoomType_value :: "RoomType \<Rightarrow> string" where
  "RoomType_value BEDROOM = ''Bedroom''"
| "RoomType_value KITCHEN = ''Kitchen''"
| "RoomType_value BATHROOM = ''Bathroom''"
| "RoomType_value LIVING = ''Living Room''"
| "RoomType_value UTILITY = ''Utility''"

datatype ClimateZone = ZONE_1 | ZONE_2 | ZONE_3 | ZONE_4 | ZONE_5 | ZONE_6 | ZONE_7 | ZONE_8

fun ClimateZone_value :: "ClimateZone \<Rightarrow> int" where
  "ClimateZone_value ZONE_1 = 1"
| "ClimateZone_value ZONE_2 = 2"
| "ClimateZone_value ZONE_3 = 3"
| "ClimateZone_value ZONE_4 = 4"
| "ClimateZone_value ZONE_5 = 5"
| "ClimateZone_value ZONE_6 = 6"
| "ClimateZone_value ZONE_7 = 7"
| "ClimateZone_value ZONE_8 = 8"

section \<open>The kit of parts\<close>

text \<open>
  The dataclasses keep an enum member in \<^verbatim>\<open>framing_type\<close>, \<^verbatim>\<open>room_type\<close> and
  \<^verbatim>\<open>climate_zone\<close>; the pydantic models (\<^verbatim>\<open>use_enum_values = True\<close>) keep the member's
  value, a string or an integer. The records leave the type of these three fields open:
  the dataclass functions work on \<open>FramingType Wall\<close>, the pydantic ones on
  \<open>string Wall\<close>, and so on.
\<close>

record MaterialLayer =
  name :: string
  thickness_inches :: real
  r_value :: real

record Window =
  width_inches :: real
  height_inches :: real
  u_factor :: real
  window_type :: string

record 'f Wall =
  length_feet :: real
  height_feet :: real
  framing_type :: 'f
  is_exterior :: bool
  layers :: "MaterialLayer list"
  windows :: "Window list"

record ('f, 'r) Room =
  room_type :: 'r
  ceiling_height_feet :: real
  walls :: "'f Wall list"

record ('f, 'r, 'z) Project =
  project_name :: string
  location_zip :: string
  climate_zone :: 'z
  rooms :: "('f, 'r) Room list"

subsection \<open>Derived properties (dataclasses)\<close>

definition Window_area_sqft :: "Window \<Rightarrow> real" where
  "Window_area_sqft self = (width_inches self * height_inches self) / 144.0"

definition clear_opening_sqft :: "Window \<Rightarrow> real" where
  "clear_opening_sqft self = Window_area_sqft self * 0.9"

definition area_sqft :: "FramingType Wall \<Rightarrow> real" where
  "area_sqft self = length_feet self * height_feet self"

definition net_area_sqft :: "FramingType Wall \<Rightarrow> real" where
  "net_area_sqft self =
     (let window_area = sum_list (map Window_area_sqft (windows self))
      in area_sqft self - window_area)"

definition total_r_value :: "FramingType Wall \<Rightarrow> real" where
  "total_r_value self = sum_list (map r_value (layers self))"

definition stud_spacing_inches :: "FramingType Wall \<Rightarrow> int" where
  "stud_spacing_inches self =
     (if py_in ''16oc'' (FramingType_value (framing_type self)) then 16
      else if py_in ''24oc'' (FramingType_value (framing_type self)) then 24
      else 16)"

definition get_all_windows :: "(FramingType, RoomType) Room \<Rightarrow> Window list" where
  "get_all_windows self = foldl (\<lambda>windows wall. windows @ Wall.windows wall) [] (walls self)"

section \<open>Material calculator (dataclasses)\<close>

definition calculate_wall_materials :: "FramingType Wall \<Rightarrow> py_error + materials" where
  "calculate_wall_materials wall =
     (case py_truediv (length_feet wall * 12) (of_int (stud_spacing_inches wall)) of
        Inl e \<Rightarrow> Inl e
      | Inr q \<Rightarrow>
          let num_studs_vertical = py_int q + 1;
              num_studs_plates = 3;
              total_studs = num_studs_vertical + num_studs_plates;
              materials = [];
              materials = AList.update ''studs_count'' (of_int total_studs) materials;
              materials = AList.update ''stud_linear_feet''
                            (of_int total_studs * height_feet wall) materials;
              materials = AList.update ''top_plate_lf'' (length_feet wall * 2) materials;
              materials = AList.update ''bottom_plate_lf'' (length_feet wall) materials;
              materials = AList.update ''sheathing_sqft'' (area_sqft wall) materials;
              materials = AList.update ''drywall_sqft'' (area_sqft wall) materials;
              materials = AList.update ''insulation_sqft'' (net_area_sqft wall) materials;
              materials =
                (if is_exterior wall
                 then (let trench_volume_cuft = length_feet wall * 2.0 * 0.5
                       in AList.update ''gravel_cubic_yards'' (trench_volume_cuft / 27.0)
                            materials)
                 else AList.update ''gravel_cubic_yards'' 0.0 materials)
          in Inr materials)"

text \<open>
  The aggregation loops. \<^verbatim>\<open>for key in totals: totals[key] += m.get(key, 0)\<close> runs over
  the keys the dictionary has when the loop starts; reading \<^verbatim>\<open>totals[key]\<close> would raise
  KeyError on a missing key.
\<close>

fun add_to_totals :: "string list \<Rightarrow> materials \<Rightarrow> materials \<Rightarrow> py_error + materials" where
  "add_to_totals [] totals m = Inr totals"
| "add_to_totals (key # keys) totals m =
     (case dict_item totals key of
        Inl e \<Rightarrow> Inl e
      | Inr v \<Rightarrow> add_to_totals keys (AList.update key (v + dict_get m key 0) totals) m)"

fun room_walls_loop :: "materials \<Rightarrow> FramingType Wall list \<Rightarrow> py_error + materials" where
  "room_walls_loop totals [] = Inr totals"
| "room_walls_loop totals (wall # rest) =
     (case calculate_wall_materials wall of
        Inl e \<Rightarrow> Inl e
      | Inr wall_materials \<Rightarrow>
          (case add_to_totals (map fst totals) totals wall_materials of
             Inl e \<Rightarrow> Inl e
           | Inr totals' \<Rightarrow> room_walls_loop totals' rest))"

definition calculate_room_materials ::
  "(FramingType, RoomType) Room \<Rightarrow> py_error + materials" where
  "calculate_room_materials room =
     (let totals = [(''studs_count'', 0),
                    (''stud_linear_feet'', 0),
                    (''top_plate_lf'', 0),
                    (''bottom_plate_lf'', 0),
                    (''sheathing_sqft'', 0),
                    (''drywall_sqft'', 0),
                    (''insulation_sqft'', 0),
                    (''gravel_cubic_yards'', 0)]
      in room_walls_loop totals (walls room))"

section \<open>Code validator (dataclasses)\<close>

record ValidationError =
  code :: string
  severity :: string
  message :: string
  component :: "string option"

definition IECC_RVALUE_REQUIREMENTS :: "(ClimateZone \<times> int) list" where
  "IECC_RVALUE_REQUIREMENTS =
     [(ZONE_1, 13), (ZONE_2, 13), (ZONE_3, 13), (ZONE_4, 15),
      (ZONE_5, 20), (ZONE_6, 20), (ZONE_7, 21), (ZONE_8, 21)]"

definition check_ceiling_height ::
  "(FramingType, RoomType) Room \<Rightarrow> ValidationError list" where
  "check_ceiling_height room =
     (let errors = [];
          MIN_HEIGHT = 7.0
      in if ceiling_height_feet room < MIN_HEIGHT
         then errors @
              [\<lparr>code = ''IRC R305.1'',
                severity = ''ERROR'',
                message = ''Ceiling height '' @ float_repr (ceiling_height_feet room) @
                          ''ft is below minimum '' @ float_repr MIN_HEIGHT @ ''ft'',
                component = Some (RoomType_value (room_type room))\<rparr>]
         else errors)"

text \<open>The search loop of the egress check: it stops (\<^verbatim>\<open>break\<close>) at the first window that
  reaches the minimum clear opening.\<close>

fun has_compliant_egress :: "real \<Rightarrow> Window list \<Rightarrow> bool" where
  "has_compliant_egress MIN_CLEAR_OPENING [] = False"
| "has_compliant_egress MIN_CLEAR_OPENING (window # rest) =
     (if clear_opening_sqft window \<ge> MIN_CLEAR_OPENING then True
      else has_compliant_egress MIN_CLEAR_OPENING rest)"

definition check_bedroom_egress ::
  "(FramingType, RoomType) Room \<Rightarrow> py_error + ValidationError list" where
  "check_bedroom_egress room =
     (let errors = [];
          MIN_CLEAR_OPENING = 5.7;
          windows = get_all_windows room
      in if windows = []
         then Inr (errors @
              [\<lparr>code = ''IRC R310.1'',
                severity = ''ERROR'',
                message = ''Bedroom requires at least one egress window'',
                component = Some (RoomType_value (room_type room))\<rparr>])
         else if \<not> has_compliant_egress MIN_CLEAR_OPENING windows
         then (case py_max (map clear_opening_sqft windows) of
                 Inl e \<Rightarrow> Inl e
               | Inr max_opening \<Rightarrow>
                   Inr (errors @
                     [\<lparr>code = ''IRC R310.1'',
                       severity = ''ERROR'',
                       message = ''No window meets egress requirement. '' @
                                 ''Required: '' @ float_repr MIN_CLEAR_OPENING @ '' sq ft, '' @
                                 ''Largest found: '' @ format_f 2 max_opening @ '' sq ft'',
                       component = Some (RoomType_value (room_type room))\<rparr>]))
         else Inr errors)"

text \<open>The loop of the thermal check over \<^verbatim>\<open>enumerate(room.walls)\<close>; \<open>i\<close> is the index.\<close>

fun thermal_walls_loop ::
  "int \<Rightarrow> ClimateZone \<Rightarrow> nat \<Rightarrow> FramingType Wall list \<Rightarrow> ValidationError list" where
  "thermal_walls_loop required_rvalue zone i [] = []"
| "thermal_walls_loop required_rvalue zone i (wall # rest) =
     (if is_exterior wall
      then (if total_r_value wall < of_int required_rvalue
            then [\<lparr>code = ''IECC R402.1'',
                   severity = ''ERROR'',
                   message = ''Exterior wall R-value '' @ format_f 1 (total_r_value wall) @
                             '' below required '' @ str_int required_rvalue @
                             '' for Climate Zone '' @ str_int (ClimateZone_value zone),
                   component = Some (''Wall #'' @ str_int (int i + 1) @ '' ('' @
                                     FramingType_value (framing_type wall) @ '')'')\<rparr>]
            else [])
      else [])
     @ thermal_walls_loop required_rvalue zone (i + 1) rest"

definition check_thermal_envelope ::
  "(FramingType, RoomType) Room \<Rightarrow> (FramingType, RoomType, ClimateZone) Project
     \<Rightarrow> ValidationError list" where
  "check_thermal_envelope room project =
     (let required_rvalue = dict_get IECC_RVALUE_REQUIREMENTS (climate_zone project) 20
      in thermal_walls_loop required_rvalue (climate_zone project) 0 (walls room))"

definition validate_room ::
  "(FramingType, RoomType) Room \<Rightarrow> (FramingType, RoomType, ClimateZone) Project
     \<Rightarrow> py_error + ValidationError list" where
  "validate_room room project =
     (let errors = [];
          errors = errors @ check_ceiling_height room
      in case (if room_type room = BEDROOM
               then (case check_bedroom_egress room of
                       Inl e \<Rightarrow> Inl e
                     | Inr egress_errors \<Rightarrow> Inr (errors @ egress_errors))
               else Inr errors) of
           Inl e \<Rightarrow> Inl e
         | Inr errors \<Rightarrow> Inr (errors @ check_thermal_envelope room project))"

section \<open>The pydantic models of the REST service\<close>

text \<open>
  The constraints pydantic enforces when a model is built: \<^verbatim>\<open>Field(gt=0)\<close>,
  \<^verbatim>\<open>Field(ge=0)\<close>, \<^verbatim>\<open>Field(gt=0, le=2.0)\<close>, \<^verbatim>\<open>min_items=1\<close> and the validator of
  \<^verbatim>\<open>height_feet\<close>. Pydantic also restricts the enum fields to the values of their
  enums; no property below needs that, so it is left out and the predicates are stated for
  any representation of those fields.
\<close>

definition validate_height :: "real \<Rightarrow> py_error + real" where
  "validate_height v =
     (if v < 6.0 then Inl (ValueError ''Wall height must be at least 6 feet'')
      else if v > 20.0 then Inl (ValueError ''Wall height cannot exceed 20 feet (residential)'')
      else Inr v)"

definition MaterialLayer_valid :: "MaterialLayer \<Rightarrow> bool" where
  "MaterialLayer_valid l \<longleftrightarrow> thickness_inches l > 0 \<and> r_value l \<ge> 0"

definition Window_valid :: "Window \<Rightarrow> bool" where
  "Window_valid w \<longleftrightarrow>
     width_inches w > 0 \<and> height_inches w > 0 \<and> u_factor w > 0 \<and> u_factor w \<le> 2.0"

definition Wall_valid :: "'f Wall \<Rightarrow> bool" where
  "Wall_valid w \<longleftrightarrow>
     length_feet w > 0 \<and> height_feet w > 0 \<and>
     validate_height (height_feet w) = Inr (height_feet w) \<and>
     list_all MaterialLayer_valid (layers w) \<and> list_all Window_valid (windows w)"

definition Room_valid :: "('f, 'r) Room \<Rightarrow> bool" where
  "Room_valid r \<longleftrightarrow>
     ceiling_height_feet r > 0 \<and> length (walls r) \<ge> 1 \<and> list_all Wall_valid (walls r)"

definition Project_valid :: "('f, 'r, 'z) Project \<Rightarrow> bool" where
  "Project_valid p \<longleftrightarrow> length (rooms p) \<ge> 1 \<and> list_all Room_valid (rooms p)"

subsection \<open>Derived properties (pydantic models)\<close>

definition api_Window_area_sqft :: "Window \<Rightarrow> real" where
  "api_Window_area_sqft self = (width_inches self * height_inches self) / 144.0"

definition api_clear_opening_sqft :: "Window \<Rightarrow> real" where
  "api_clear_opening_sqft self = api_Window_area_sqft self * 0.9"

definition api_area_sqft :: "string Wall \<Rightarrow> real" where
  "api_area_sqft self = length_feet self * height_feet self"

definition api_net_area_sqft :: "string Wall \<Rightarrow> real" where
  "api_net_area_sqft self =
     (let window_area = sum_list (map api_Window_area_sqft (windows self))
      in api_area_sqft self - window_area)"

definition api_total_r_value :: "string Wall \<Rightarrow> real" where
  "api_total_r_value self = sum_list (map r_value (layers self))"

definition api_stud_spacing_inches :: "string Wall \<Rightarrow> int" where
  "api_stud_spacing_inches self =
     (let framing_str = framing_type self
      in if py_in ''16oc'' framing_str then 16
         else if py_in ''24oc'' framing_str then 24
         else 16)"

definition api_get_all_windows :: "(string, string) Room \<Rightarrow> Window list" where
  "api_get_all_windows self =
     foldl (\<lambda>windows wall. windows @ Wall.windows wall) [] (walls self)"

section \<open>Material calculator (REST service)\<close>

definition api_calculate_wall_materials :: "string Wall \<Rightarrow> py_error + materials" where
  "api_calculate_wall_materials wall =
     (case py_truediv (length_feet wall * 12) (of_int (api_stud_spacing_inches wall)) of
        Inl e \<Rightarrow> Inl e
      | Inr q \<Rightarrow>
          let num_studs_vertical = py_int q + 1;
              num_studs_plates = 3;
              total_studs = num_studs_vertical + num_studs_plates;
              materials = [];
              materials = AList.update ''studs_count'' (of_int total_studs) materials;
              materials = AList.update ''stud_linear_feet''
                            (of_int total_studs * height_feet wall) materials;
              materials = AList.update ''top_plate_lf'' (length_feet wall * 2) materials;
              materials = AList.update ''bottom_plate_lf'' (length_feet wall) materials;
              materials = AList.update ''sheathing_sqft'' (api_area_sqft wall) materials;
              materials = AList.update ''drywall_sqft'' (api_area_sqft wall) materials;
              materials = AList.update ''insulation_sqft'' (api_net_area_sqft wall) materials;
              materials =
                (if is_exterior wall
                 then (let trench_volume_cuft = length_feet wall * 2.0 * 0.5
                       in AList.update ''gravel_cubic_yards'' (trench_volume_cuft / 27.0)
                            materials)
                 else AList.update ''gravel_cubic_yards'' 0.0 materials)
          in Inr materials)"

fun api_room_walls_loop :: "materials \<Rightarrow> string Wall list \<Rightarrow> py_error + materials" where
  "api_room_walls_loop totals [] = Inr totals"
| "api_room_walls_loop totals (wall # rest) =
     (case api_calculate_wall_materials wall of
        Inl e \<Rightarrow> Inl e
      | Inr wall_materials \<Rightarrow>
          (case add_to_totals (map fst totals) totals wall_materials of
             Inl e \<Rightarrow> Inl e
           | Inr totals' \<Rightarrow> api_room_walls_loop totals' rest))"

definition api_calculate_room_materials ::
  "(string, string) Room \<Rightarrow> py_error + materials" where
  "api_calculate_room_materials room =
     (let totals = [(''studs_count'', 0),
                    (''stud_linear_feet'', 0),
                    (''top_plate_lf'', 0),
                    (''bottom_plate_lf'', 0),
                    (''sheathing_sqft'', 0),
                    (''drywall_sqft'', 0),
                    (''insulation_sqft'', 0),
                    (''gravel_cubic_yards'', 0)]
      in api_room_walls_loop totals (walls room))"



section \<open>Code validator (REST service)\<close>

text \<open>\<^verbatim>\<open>ComplianceResult\<close> has the four fields of \<^verbatim>\<open>ValidationError\<close>. The keys of the
  requirements table are members of an integer enum: they hash and compare as their values,
  which is what the stored \<^verbatim>\<open>climate_zone\<close> is looked up by.\<close>

type_synonym ComplianceResult = ValidationError

definition api_IECC_RVALUE_REQUIREMENTS :: "(int \<times> int) list" where
  "api_IECC_RVALUE_REQUIREMENTS =
     [(ClimateZone_value ZONE_1, 13), (ClimateZone_value ZONE_2, 13),
      (ClimateZone_value ZONE_3, 13), (ClimateZone_value ZONE_4, 15),
      (ClimateZone_value ZONE_5, 20), (ClimateZone_value ZONE_6, 20),
      (ClimateZone_value ZONE_7, 21), (ClimateZone_value ZONE_8, 21)]"

definition api_check_ceiling_height :: "(string, string) Room \<Rightarrow> ComplianceResult list" where
  "api_check_ceiling_height room =
     (let errors = [];
          MIN_HEIGHT = 7.0
      in if ceiling_height_feet room < MIN_HEIGHT
         then (let room_type_str = room_type room
               in errors @
                  [\<lparr>code = ''IRC R305.1'',
                    severity = ''ERROR'',
                    message = ''Ceiling height '' @ float_repr (ceiling_height_feet room) @
                              ''ft is below minimum '' @ float_repr MIN_HEIGHT @ ''ft'',
                    component = Some room_type_str\<rparr>])
         else errors)"

fun api_has_compliant_egress :: "real \<Rightarrow> Window list \<Rightarrow> bool" where
  "api_has_compliant_egress MIN_CLEAR_OPENING [] = False"
| "api_has_compliant_egress MIN_CLEAR_OPENING (window # rest) =
     (if api_clear_opening_sqft window \<ge> MIN_CLEAR_OPENING then True
      else api_has_compliant_egress MIN_CLEAR_OPENING rest)"

definition api_check_bedroom_egress ::
  "(string, string) Room \<Rightarrow> py_error + ComplianceResult list" where
  "api_check_bedroom_egress room =
     (let errors = [];
          MIN_CLEAR_OPENING = 5.7;
          windows = api_get_all_windows room
      in if windows = []
         then (let room_type_str = room_type room
               in Inr (errors @
                    [\<lparr>code = ''IRC R310.1'',
                      severity = ''ERROR'',
                      message = ''Bedroom requires at least one egress window'',
                      component = Some room_type_str\<rparr>]))
         else if \<not> api_has_compliant_egress MIN_CLEAR_OPENING windows
         then (case py_max (map api_clear_opening_sqft windows) of
                 Inl e \<Rightarrow> Inl e
               | Inr max_opening \<Rightarrow>
                   (let room_type_str = room_type room
                    in Inr (errors @
                         [\<lparr>code = ''IRC R310.1'',
                           severity = ''ERROR'',
                           message = ''No window meets egress requirement. '' @
                                     ''Required: '' @ float_repr MIN_CLEAR_OPENING @
                                     '' sq ft, '' @
                                     ''Largest found: '' @ format_f 2 max_opening @ '' sq ft'',
                           component = Some room_type_str\<rparr>])))
         else Inr errors)"

fun api_thermal_walls_loop ::
  "int \<Rightarrow> int \<Rightarrow> nat \<Rightarrow> string Wall list \<Rightarrow> ComplianceResult list" where
  "api_thermal_walls_loop required_rvalue zone i [] = []"
| "api_thermal_walls_loop required_rvalue zone i (wall # rest) =
     (if is_exterior wall
      then (if api_total_r_value wall < of_int required_rvalue
            then (let climate_zone_str = zone;
                      framing_type_str = framing_type wall
                  in [\<lparr>code = ''IECC R402.1'',
                       severity = ''ERROR'',
                       message = ''Exterior wall R-value '' @
                                 format_f 1 (api_total_r_value wall) @
                                 '' below required '' @ str_int required_rvalue @
                                 '' for Climate Zone '' @ str_int climate_zone_str,
                       component = Some (''Wall #'' @ str_int (int i + 1) @ '' ('' @
                                         framing_type_str @ '')'')\<rparr>])
            else [])
      else [])
     @ api_thermal_walls_loop required_rvalue zone (i + 1) rest"

definition api_check_thermal_envelope ::
  "(string, string) Room \<Rightarrow> (string, string, int) Project \<Rightarrow> ComplianceResult list" where
  "api_check_thermal_envelope room project =
     (let required_rvalue = dict_get api_IECC_RVALUE_REQUIREMENTS (climate_zone project) 20
      in api_thermal_walls_loop required_rvalue (climate_zone project) 0 (walls room))"

definition api_validate_room ::
  "(string, string) Room \<Rightarrow> (string, string, int) Project
     \<Rightarrow> py_error + ComplianceResult list" where
  "api_validate_room room project =
     (let errors = [];
          errors = errors @ api_check_ceiling_height room
      in case (if room_type room = RoomType_value BEDROOM
               then (case api_check_bedroom_egress room of
                       Inl e \<Rightarrow> Inl e
                     | Inr egress_errors \<Rightarrow> Inr (errors @ egress_errors))
               else Inr errors) of
           Inl e \<Rightarrow> Inl e
         | Inr errors \<Rightarrow> Inr (errors @ api_check_thermal_envelope room project))"

text \<open>
  \<^verbatim>\<open>validate_project\<close> rewrites the component of every finding of a room in place
  (the findings are fresh objects of that call) and appends them to \<^verbatim>\<open>all_errors\<close>.
  \<^verbatim>\<open>if error.component:\<close> is false for \<^verbatim>\<open>None\<close> and for the empty string.
\<close>

definition add_room_context ::
  "nat \<Rightarrow> (string, string) Room \<Rightarrow> ComplianceResult \<Rightarrow> ComplianceResult" where
  "add_room_context room_idx room error =
     (let room_type_str = room_type room
      in case component error of
           Some c \<Rightarrow>
             if c \<noteq> []
             then error\<lparr>component := Some (''Room '' @ str_int (int room_idx + 1) @ '' ('' @
                                            room_type_str @ '') - '' @ c)\<rparr>
             else error\<lparr>component := Some (''Room '' @ str_int (int room_idx + 1) @ '' ('' @
                                            room_type_str @ '')'')\<rparr>
         | None \<Rightarrow>
             error\<lparr>component := Some (''Room '' @ str_int (int room_idx + 1) @ '' ('' @
                                       room_type_str @ '')'')\<rparr>)"

fun validate_rooms_loop ::
  "ComplianceResult list \<Rightarrow> nat \<Rightarrow> (string, string, int) Project
     \<Rightarrow> (string, string) Room list \<Rightarrow> py_error + ComplianceResult list" where
  "validate_rooms_loop all_errors room_idx project [] = Inr all_errors"
| "validate_rooms_loop all_errors room_idx project (room # rest) =
     (case api_validate_room room project of
        Inl e \<Rightarrow> Inl e
      | Inr room_errors \<Rightarrow>
          validate_rooms_loop (all_errors @ map (add_room_context room_idx room) room_errors)
            (room_idx + 1) project rest)"

definition validate_project ::
  "(string, string, int) Project \<Rightarrow> py_error + ComplianceResult list" where
  "validate_project project = validate_rooms_loop [] 0 project (rooms project)"

section \<open>Corresponding inputs of the two copies\<close>

text \<open>A dataclass value and the pydantic value with the same field values: the enum
  members are replaced by their values.\<close>

definition api_of_wall :: "FramingType Wall \<Rightarrow> string Wall" where
  "api_of_wall w =
     \<lparr>length_feet = length_feet w, height_feet = height_feet w,
      framing_type = FramingType_value (framing_type w), is_exterior = is_exterior w,
      layers = layers w, windows = windows w\<rparr>"

definition api_of_room :: "(FramingType, RoomType) Room \<Rightarrow> (string, string) Room" where
  "api_of_room r =
     \<lparr>room_type = RoomType_value (room_type r),
      ceiling_height_feet = ceiling_height_feet r,
      walls = map api_of_wall (walls r)\<rparr>"

definition api_of_project ::
  "(FramingType, RoomType, ClimateZone) Project \<Rightarrow> (string, string, int) Project" where
  "api_of_project p =
     \<lparr>project_name = project_name p, location_zip = location_zip p,
      climate_zone = ClimateZone_value (climate_zone p),
      rooms = map api_of_room (rooms p)\<rparr>"

section \<open>Names used in the statements\<close>


text \<open>An error-severity finding with a component, as every check builds it.\<close>

definition finding :: "string \<Rightarrow> string \<Rightarrow> string \<Rightarrow> ValidationError" where
  "finding c msg part = \<lparr>code = c, severity = ''ERROR'', message = msg, component = Some part\<rparr>"

section \<open>The demonstration project\<close>

text \<open>The values \<^verbatim>\<open>main()\<close> of the configurator builds: a 12 by 10 bedroom in climate
  zone 6 whose only window is too small for egress, and the window that replaces it.\<close>

definition exterior_layers :: "MaterialLayer list" where
  "exterior_layers =
     [\<lparr>name = ''Vinyl Siding'', thickness_inches = 0.5, r_value = 0.6\<rparr>,
      \<lparr>name = ''OSB Sheathing'', thickness_inches = 0.5, r_value = 0.6\<rparr>,
      \<lparr>name = ''Fiberglass Batt R-19'', thickness_inches = 5.5, r_value = 19.0\<rparr>,
      \<lparr>name = ''Drywall'', thickness_inches = 0.5, r_value = 0.45\<rparr>]"

definition small_window :: Window where
  "small_window =
     \<lparr>width_inches = 24, height_inches = 24, u_factor = 0.30, window_type = ''Double-Hung''\<rparr>"

definition compliant_window :: Window where
  "compliant_window =
     \<lparr>width_inches = 36, height_inches = 48, u_factor = 0.28, window_type = ''Double-Hung''\<rparr>"

definition north_wall :: "FramingType Wall" where
  "north_wall =
     \<lparr>length_feet = 12.0, height_feet = 8.0, framing_type = STUD_2x6_16OC, is_exterior = True,
      layers = exterior_layers, windows = [small_window]\<rparr>"

definition south_wall :: "FramingType Wall" where
  "south_wall =
     \<lparr>length_feet = 12.0, height_feet = 8.0, framing_type = STUD_2x6_16OC, is_exterior = True,
      layers = exterior_layers, windows = []\<rparr>"

definition east_wall :: "FramingType Wall" where
  "east_wall =
     \<lparr>length_feet = 10.0, height_feet = 8.0, framing_type = STUD_2x6_16OC, is_exterior = True,
      layers = exterior_layers, windows = []\<rparr>"

definition west_wall :: "FramingType Wall" where
  "west_wall =
     \<lparr>length_feet = 10.0, height_feet = 8.0, framing_type = STUD_2x6_16OC, is_exterior = False,
      layers = [], windows = []\<rparr>"

definition bedroom :: "(FramingType, RoomType) Room" where
  "bedroom =
     \<lparr>room_type = BEDROOM, ceiling_height_feet = 8.0,
      walls = [north_wall, south_wall, east_wall, west_wall]\<rparr>"

definition maine_residence :: "(FramingType, RoomType, ClimateZone) Project" where
  "maine_residence =
     \<lparr>project_name = ''Maine Residence'', location_zip = ''04101'', climate_zone = ZONE_6,
      rooms = [bedroom]\<rparr>"

text \<open>A wall of 10 by 8 feet with three windows of 6 by 6 feet: every field is within the
  bounds the models enforce, and the windows cover more than the wall.\<close>

definition glazed_wall :: "FramingType Wall" where
  "glazed_wall =
     \<lparr>length_feet = 10.0, height_feet = 8.0, framing_type = STUD_2x4_16OC, is_exterior = True,
      layers = [],
      windows = replicate 3 \<lparr>width_inches = 72, height_inches = 72, u_factor = 0.30,
                              window_type = ''Picture''\<rparr>\<rparr>"


text \<open>The demonstration bedroom with its bare party wall turned into an exterior wall.\<close>

definition exposed_bedroom :: "(FramingType, RoomType) Room" where
  "exposed_bedroom =
     bedroom\<lparr>walls := [north_wall, south_wall, east_wall, west_wall\<lparr>is_exterior := True\<rparr>]\<rparr>"

text \<open>The demonstration bedroom after the fix of \<^verbatim>\<open>main()\<close> (the north wall gets the
  compliant window), and a project that holds both bedrooms.\<close>

definition fixed_bedroom :: "(FramingType, RoomType) Room" where
  "fixed_bedroom =
     bedroom\<lparr>walls := [north_wall\<lparr>windows := [compliant_window]\<rparr>, south_wall, east_wall,
                        west_wall]\<rparr>"

definition two_bedroom_residence :: "(FramingType, RoomType, ClimateZone) Project" where
  "two_bedroom_residence = maine_residence\<lparr>rooms := [bedroom, fixed_bedroom]\<rparr>"

section \<open>Double precision arithmetic\<close>

text \<open>
  The definitions above take Python's \<^verbatim>\<open>float\<close> for a real number, which is enough for
  the shape of the results. Whether a value reaches a threshold, which integer a
  truncation gives and whether a conversion raises depend on the rounding and the range of
  IEEE 754 binary64, the \<^verbatim>\<open>float\<close> of CPython. This section defines that arithmetic; the
  next one embeds the calculator and the validator on it.

  A float is a finite double (a real number \<open>m * 2 ^ e\<close> with \<open>\<bar>m\<bar> < 2 ^ 53\<close> and
  \<open>- 1074 \<le> e \<le> 971\<close>; \<open>Fin 0\<close> is \<^verbatim>\<open>0.0\<close>), the negative zero, an infinity or NaN.
\<close>

datatype pyfloat = Fin real | NegZero | PosInf | NegInf | NaN

text \<open>\<^verbatim>\<open>n.bit_length()\<close> of a positive integer.\<close>

function bit_length :: "int \<Rightarrow> int" where
  "bit_length n = (if n \<le> 0 then 0 else 1 + bit_length (n div 2))"
  by pat_completeness auto
termination
  by (relation "measure nat") auto

declare bit_length.simps [simp del]

definition pow2 :: "int \<Rightarrow> real" where
  "pow2 e = (if 0 \<le> e then 2 ^ nat e else 1 / 2 ^ nat (- e))"

text \<open>For \<open>x > 0\<close>, the exponent \<open>e\<close> with \<open>2 ^ e \<le> x < 2 ^ (e + 1)\<close>.\<close>

definition binary_exponent :: "real \<Rightarrow> int" where
  "binary_exponent x =
     (if 1 \<le> x then bit_length \<lfloor>x\<rfloor> - 1 else - bit_length (\<lceil>1 / x\<rceil> - 1))"

text \<open>
  Rounding a positive real to the nearest multiple of the unit in the last place of its
  binade (53 significant bits; below \<open>2 ^ - 1022\<close> the unit stays \<open>2 ^ - 1074\<close>), ties to
  the even multiple.
\<close>

definition round_to_double :: "real \<Rightarrow> real" where
  "round_to_double x =
     of_int (round_half_even (x / pow2 (max (binary_exponent x) (- 1022) - 52)))
       * pow2 (max (binary_exponent x) (- 1022) - 52)"

text \<open>The float nearest to a real: a magnitude that rounds to \<open>2 ^ 1024\<close> or more gives an
  infinity, one that rounds to nothing gives a zero of the same sign.\<close>

definition fl :: "real \<Rightarrow> pyfloat" where
  "fl x =
     (if x = 0 then Fin 0
      else if 2 ^ 1024 \<le> round_to_double \<bar>x\<bar> then (if x < 0 then NegInf else PosInf)
      else if round_to_double \<bar>x\<bar> = 0 then (if x < 0 then NegZero else Fin 0)
      else Fin (if x < 0 then - round_to_double \<bar>x\<bar> else round_to_double \<bar>x\<bar>))"

fun is_nan :: "pyfloat \<Rightarrow> bool" where
  "is_nan NaN = True"
| "is_nan _ = False"

fun is_inf :: "pyfloat \<Rightarrow> bool" where
  "is_inf PosInf = True"
| "is_inf NegInf = True"
| "is_inf _ = False"

fun is_zero :: "pyfloat \<Rightarrow> bool" where
  "is_zero (Fin v) = (v = 0)"
| "is_zero NegZero = True"
| "is_zero _ = False"

text \<open>The sign bit, and the value of a finite float.\<close>

fun fsign :: "pyfloat \<Rightarrow> bool" where
  "fsign (Fin v) = (v < 0)"
| "fsign NegZero = True"
| "fsign NegInf = True"
| "fsign _ = False"

fun fval :: "pyfloat \<Rightarrow> real" where
  "fval (Fin v) = v"
| "fval _ = 0"

definition is_finite :: "pyfloat \<Rightarrow> bool" where
  "is_finite a \<longleftrightarrow> \<not> is_nan a \<and> \<not> is_inf a"

fun fneg :: "pyfloat \<Rightarrow> pyfloat" where
  "fneg (Fin v) = (if v = 0 then NegZero else Fin (- v))"
| "fneg NegZero = Fin 0"
| "fneg PosInf = NegInf"
| "fneg NegInf = PosInf"
| "fneg NaN = NaN"

definition fmul :: "pyfloat \<Rightarrow> pyfloat \<Rightarrow> pyfloat" where
  "fmul a b =
     (if is_nan a \<or> is_nan b then NaN
      else if is_inf a \<or> is_inf b
      then (if is_zero a \<or> is_zero b then NaN
            else if fsign a \<noteq> fsign b then NegInf else PosInf)
      else if is_zero a \<or> is_zero b then (if fsign a \<noteq> fsign b then NegZero else Fin 0)
      else fl (fval a * fval b))"

text \<open>IEEE division; Python raises before dividing by a zero, see \<open>py_truediv_f64\<close>.\<close>

definition fdiv :: "pyfloat \<Rightarrow> pyfloat \<Rightarrow> pyfloat" where
  "fdiv a b =
     (if is_nan a \<or> is_nan b then NaN
      else if is_inf a then (if is_inf b then NaN
                             else if fsign a \<noteq> fsign b then NegInf else PosInf)
      else if is_inf b then (if fsign a \<noteq> fsign b then NegZero else Fin 0)
      else if is_zero b then (if is_zero a then NaN
                              else if fsign a \<noteq> fsign b then NegInf else PosInf)
      else if is_zero a then (if fsign a \<noteq> fsign b then NegZero else Fin 0)
      else fl (fval a / fval b))"

definition fadd :: "pyfloat \<Rightarrow> pyfloat \<Rightarrow> pyfloat" where
  "fadd a b =
     (if is_nan a \<or> is_nan b then NaN
      else if is_inf a then (if is_inf b \<and> fsign a \<noteq> fsign b then NaN else a)
      else if is_inf b then b
      else if is_zero a \<and> is_zero b then (if fsign a \<and> fsign b then NegZero else Fin 0)
      else if fval a + fval b = 0 then Fin 0
      else fl (fval a + fval b))"

definition fsub :: "pyfloat \<Rightarrow> pyfloat \<Rightarrow> pyfloat" where
  "fsub a b = fadd a (fneg b)"

text \<open>Comparisons: false when an operand is NaN; the two zeros are equal.\<close>

fun frank :: "pyfloat \<Rightarrow> int" where
  "frank NegInf = - 1"
| "frank PosInf = 1"
| "frank _ = 0"

definition flt :: "pyfloat \<Rightarrow> pyfloat \<Rightarrow> bool" where
  "flt a b \<longleftrightarrow>
     \<not> is_nan a \<and> \<not> is_nan b \<and>
     (frank a < frank b \<or> frank a = frank b \<and> fval a < fval b)"

definition fle :: "pyfloat \<Rightarrow> pyfloat \<Rightarrow> bool" where
  "fle a b \<longleftrightarrow>
     \<not> is_nan a \<and> \<not> is_nan b \<and>
     (frank a < frank b \<or> frank a = frank b \<and> fval a \<le> fval b)"

definition fgt :: "pyfloat \<Rightarrow> pyfloat \<Rightarrow> bool" where
  "fgt a b = flt b a"

definition fge :: "pyfloat \<Rightarrow> pyfloat \<Rightarrow> bool" where
  "fge a b = fle b a"

subsection \<open>Conversions and built-in functions\<close>

text \<open>\<^verbatim>\<open>a / b\<close> on floats raises ZeroDivisionError when \<^verbatim>\<open>b\<close> is a zero.\<close>

definition py_truediv_f64 :: "pyfloat \<Rightarrow> pyfloat \<Rightarrow> py_error + pyfloat" where
  "py_truediv_f64 a b = (if is_zero b then Inl ZeroDivisionError else Inr (fdiv a b))"

text \<open>\<^verbatim>\<open>int(x)\<close> truncates towards zero; it raises OverflowError on an infinity and
  ValueError on NaN.\<close>

definition py_int_f64 :: "pyfloat \<Rightarrow> py_error + int" where
  "py_int_f64 x =
     (if is_nan x then Inl (ValueError ''cannot convert float NaN to integer'')
      else if is_inf x then Inl (OverflowError ''cannot convert float infinity to integer'')
      else Inr (py_int (fval x)))"

text \<open>An integer operand of a float operation is converted to the nearest float;
  the conversion raises OverflowError when that is no finite double.\<close>

definition float_of_int :: "int \<Rightarrow> py_error + pyfloat" where
  "float_of_int n =
     (if is_inf (fl (of_int n)) then Inl (OverflowError ''int too large to convert to float'')
      else Inr (fl (of_int n)))"

text \<open>\<^verbatim>\<open>sum(xs)\<close> over floats adds from left to right, starting from zero, each addition
  rounded (CPython up to 3.11; later versions compensate the rounding errors).\<close>

definition py_sum_f64 :: "pyfloat list \<Rightarrow> pyfloat" where
  "py_sum_f64 xs = foldl fadd (Fin 0) xs"

text \<open>\<^verbatim>\<open>max(xs)\<close> keeps the first item and replaces it by each later item that is greater.\<close>

fun py_max_f64 :: "pyfloat list \<Rightarrow> py_error + pyfloat" where
  "py_max_f64 [] = Inl (ValueError ''max() arg is an empty sequence'')"
| "py_max_f64 (x # xs) = Inr (foldl (\<lambda>m item. if fgt item m then item else m) x xs)"

subsection \<open>Formatting floats\<close>

text \<open>\<^verbatim>\<open>f"{x:.2f}"\<close> and \<^verbatim>\<open>f"{x:.1f}"\<close> round the exact value of the double.\<close>

fun format_f_f64 :: "nat \<Rightarrow> pyfloat \<Rightarrow> string" where
  "format_f_f64 prec (Fin v) = format_f prec v"
| "format_f_f64 prec NegZero = ''-'' @ format_f prec 0"
| "format_f_f64 prec PosInf = ''inf''"
| "format_f_f64 prec NegInf = ''-inf''"
| "format_f_f64 prec NaN = ''nan''"

text \<open>
  \<^verbatim>\<open>f"{x}"\<close> is \<^verbatim>\<open>repr(x)\<close>: the shortest decimal (at most 17 significant digits) that
  reads back as \<^verbatim>\<open>x\<close>, the nearest of them when there are several; written with a decimal
  point when the point falls within \<^verbatim>\<open>0.0001\<close> and \<^verbatim>\<open>1e16\<close>, with an exponent otherwise.
\<close>

definition pow10 :: "int \<Rightarrow> real" where
  "pow10 e = (if 0 \<le> e then 10 ^ nat e else 1 / 10 ^ nat (- e))"

text \<open>For \<open>x > 0\<close>, the exponent \<open>e\<close> with \<open>10 ^ e \<le> x < 10 ^ (e + 1)\<close>.\<close>

definition decimal_exponent :: "real \<Rightarrow> int" where
  "decimal_exponent x =
     (if 1 \<le> x then int (length (str_digits \<lfloor>x\<rfloor>)) - 1
      else - int (length (str_digits (\<lceil>1 / x\<rceil> - 1))))"

text \<open>The search for the shortest digits: \<open>ex\<close> is the decimal exponent of the last digit
  tried; the two integers next to \<open>x / 10 ^ ex\<close> are tried, the nearer first.\<close>

fun shortest_digits :: "nat \<Rightarrow> int \<Rightarrow> real \<Rightarrow> int \<times> int" where
  "shortest_digits 0 ex x = (round_half_even (x / pow10 ex), ex)"
| "shortest_digits (Suc n) ex x =
     (if x / pow10 ex - of_int \<lfloor>x / pow10 ex\<rfloor> \<le> of_int \<lceil>x / pow10 ex\<rceil> - x / pow10 ex
      then (if fl (of_int \<lfloor>x / pow10 ex\<rfloor> * pow10 ex) = Fin x then (\<lfloor>x / pow10 ex\<rfloor>, ex)
            else if fl (of_int \<lceil>x / pow10 ex\<rceil> * pow10 ex) = Fin x then (\<lceil>x / pow10 ex\<rceil>, ex)
            else shortest_digits n (ex - 1) x)
      else (if fl (of_int \<lceil>x / pow10 ex\<rceil> * pow10 ex) = Fin x then (\<lceil>x / pow10 ex\<rceil>, ex)
            else if fl (of_int \<lfloor>x / pow10 ex\<rfloor> * pow10 ex) = Fin x then (\<lfloor>x / pow10 ex\<rfloor>, ex)
            else shortest_digits n (ex - 1) x))"

text \<open>Writing the digits \<open>ds\<close> with the decimal point after the first \<open>decpt\<close> of them.\<close>

definition repr_layout :: "string \<Rightarrow> int \<Rightarrow> string" where
  "repr_layout ds decpt =
     (if - 4 < decpt \<and> decpt \<le> 16
      then (if decpt \<le> 0 then ''0.'' @ replicate (nat (- decpt)) (CHR ''0'') @ ds
            else if int (length ds) \<le> decpt
            then ds @ replicate (nat (decpt - int (length ds))) (CHR ''0'') @ ''.0''
            else take (nat decpt) ds @ ''.'' @ drop (nat decpt) ds)
      else take 1 ds @ (if 1 < length ds then ''.'' @ drop 1 ds else []) @ ''e'' @
           (if decpt - 1 < 0 then ''-'' else ''+'') @ zfill 2 (str_digits \<bar>decpt - 1\<bar>))"

definition repr_positive :: "real \<Rightarrow> string" where
  "repr_positive x =
     (case shortest_digits 16 (decimal_exponent x) x of
        (c, ex) \<Rightarrow> repr_layout (strip_zeros (str_digits c)) (int (length (str_digits c)) + ex))"

fun py_repr :: "pyfloat \<Rightarrow> string" where
  "py_repr (Fin v) =
     (if v = 0 then ''0.0'' else if v < 0 then ''-'' @ repr_positive (- v) else repr_positive v)"
| "py_repr NegZero = ''-0.0''"
| "py_repr PosInf = ''inf''"
| "py_repr NegInf = ''-inf''"
| "py_repr NaN = ''nan''"

section \<open>The calculator and the validator on doubles\<close>

text \<open>
  The same functions again, with every float operation rounded as CPython rounds it and
  every conversion that can raise written out. A field annotated \<^verbatim>\<open>float\<close> holds the
  double nearest to the real number of the record, \<^term>\<open>fl x\<close>: the number itself when
  it is a double, and otherwise the double Python reads from its decimal notation. The
  literals \<^verbatim>\<open>144.0\<close>, \<^verbatim>\<open>27.0\<close>, \<^verbatim>\<open>7.0\<close>, \<^verbatim>\<open>2.0\<close> and \<^verbatim>\<open>0.5\<close> and the integers
  \<^verbatim>\<open>12\<close> and \<^verbatim>\<open>2\<close> that multiply a float are doubles as they stand; \<^verbatim>\<open>0.9\<close> and
  \<^verbatim>\<open>5.7\<close> are rounded. The names carry the suffix \<open>_f64\<close>.

  The values of a bill of materials are integers (the stud count) and floats.
\<close>

datatype pynum = PyInt int | PyFloat pyfloat

type_synonym materials_f64 = "(string \<times> pynum) list"

text \<open>\<^verbatim>\<open>a + b\<close> on numbers: exact on two integers; an integer added to a float is
  converted first.\<close>

fun py_add :: "pynum \<Rightarrow> pynum \<Rightarrow> py_error + pynum" where
  "py_add (PyInt m) (PyInt n) = Inr (PyInt (m + n))"
| "py_add (PyInt m) (PyFloat y) =
     (case float_of_int m of Inl e \<Rightarrow> Inl e | Inr x \<Rightarrow> Inr (PyFloat (fadd x y)))"
| "py_add (PyFloat x) (PyInt n) =
     (case float_of_int n of Inl e \<Rightarrow> Inl e | Inr y \<Rightarrow> Inr (PyFloat (fadd x y)))"
| "py_add (PyFloat x) (PyFloat y) = Inr (PyFloat (fadd x y))"

fun add_to_totals_f64 ::
  "string list \<Rightarrow> materials_f64 \<Rightarrow> materials_f64 \<Rightarrow> py_error + materials_f64" where
  "add_to_totals_f64 [] totals m = Inr totals"
| "add_to_totals_f64 (key # keys) totals m =
     (case dict_item totals key of
        Inl e \<Rightarrow> Inl e
      | Inr v \<Rightarrow>
          (case py_add v (dict_get m key (PyInt 0)) of
             Inl e \<Rightarrow> Inl e
           | Inr s \<Rightarrow> add_to_totals_f64 keys (AList.update key s totals) m))"

subsection \<open>Dataclasses\<close>

definition Window_area_sqft_f64 :: "Window \<Rightarrow> pyfloat" where
  "Window_area_sqft_f64 self =
     fdiv (fmul (fl (width_inches self)) (fl (height_inches self))) (Fin 144)"

definition clear_opening_sqft_f64 :: "Window \<Rightarrow> pyfloat" where
  "clear_opening_sqft_f64 self = fmul (Window_area_sqft_f64 self) (fl 0.9)"

definition area_sqft_f64 :: "FramingType Wall \<Rightarrow> pyfloat" where
  "area_sqft_f64 self = fmul (fl (length_feet self)) (fl (height_feet self))"

definition net_area_sqft_f64 :: "FramingType Wall \<Rightarrow> pyfloat" where
  "net_area_sqft_f64 self =
     (let window_area = py_sum_f64 (map Window_area_sqft_f64 (windows self))
      in fsub (area_sqft_f64 self) window_area)"

definition total_r_value_f64 :: "FramingType Wall \<Rightarrow> pyfloat" where
  "total_r_value_f64 self = py_sum_f64 (map (\<lambda>layer. fl (r_value layer)) (layers self))"

definition calculate_wall_materials_f64 ::
  "FramingType Wall \<Rightarrow> py_error + materials_f64" where
  "calculate_wall_materials_f64 wall =
     (case float_of_int (stud_spacing_inches wall) of
        Inl e \<Rightarrow> Inl e
      | Inr spacing \<Rightarrow>
     (case py_truediv_f64 (fmul (fl (length_feet wall)) (Fin 12)) spacing of
        Inl e \<Rightarrow> Inl e
      | Inr q \<Rightarrow>
     (case py_int_f64 q of
        Inl e \<Rightarrow> Inl e
      | Inr n \<Rightarrow>
     (case float_of_int (n + 1 + 3) of
        Inl e \<Rightarrow> Inl e
      | Inr total_studs_float \<Rightarrow>
          let num_studs_vertical = n + 1;
              num_studs_plates = 3;
              total_studs = num_studs_vertical + num_studs_plates;
              materials = [];
              materials = AList.update ''studs_count'' (PyInt total_studs) materials;
              materials = AList.update ''stud_linear_feet''
                            (PyFloat (fmul total_studs_float (fl (height_feet wall))))
                            materials;
              materials = AList.update ''top_plate_lf''
                            (PyFloat (fmul (fl (length_feet wall)) (Fin 2))) materials;
              materials = AList.update ''bottom_plate_lf''
                            (PyFloat (fl (length_feet wall))) materials;
              materials = AList.update ''sheathing_sqft'' (PyFloat (area_sqft_f64 wall))
                            materials;
              materials = AList.update ''drywall_sqft'' (PyFloat (area_sqft_f64 wall))
                            materials;
              materials = AList.update ''insulation_sqft''
                            (PyFloat (net_area_sqft_f64 wall)) materials;
              materials =
                (if is_exterior wall
                 then (let trench_volume_cuft =
                             fmul (fmul (fl (length_feet wall)) (Fin 2)) (Fin (1 / 2))
                       in AList.update ''gravel_cubic_yards''
                            (PyFloat (fdiv trench_volume_cuft (Fin 27))) materials)
                 else AList.update ''gravel_cubic_yards'' (PyFloat (Fin 0)) materials)
          in Inr materials))))"

definition check_ceiling_height_f64 ::
  "(FramingType, RoomType) Room \<Rightarrow> ValidationError list" where
  "check_ceiling_height_f64 room =
     (let errors = [];
          MIN_HEIGHT = Fin 7
      in if flt (fl (ceiling_height_feet room)) MIN_HEIGHT
         then errors @
              [\<lparr>code = ''IRC R305.1'',
                severity = ''ERROR'',
                message = ''Ceiling height '' @ py_repr (fl (ceiling_height_feet room)) @
                          ''ft is below minimum '' @ py_repr MIN_HEIGHT @ ''ft'',
                component = Some (RoomType_value (room_type room))\<rparr>]
         else errors)"

fun has_compliant_egress_f64 :: "pyfloat \<Rightarrow> Window list \<Rightarrow> bool" where
  "has_compliant_egress_f64 MIN_CLEAR_OPENING [] = False"
| "has_compliant_egress_f64 MIN_CLEAR_OPENING (window # rest) =
     (if fge (clear_opening_sqft_f64 window) MIN_CLEAR_OPENING then True
      else has_compliant_egress_f64 MIN_CLEAR_OPENING rest)"

definition check_bedroom_egress_f64 ::
  "(FramingType, RoomType) Room \<Rightarrow> py_error + ValidationError list" where
  "check_bedroom_egress_f64 room =
     (let errors = [];
          MIN_CLEAR_OPENING = fl 5.7;
          windows = get_all_windows room
      in if windows = []
         then Inr (errors @
              [\<lparr>code = ''IRC R310.1'',
                severity = ''ERROR'',
                message = ''Bedroom requires at least one egress window'',
                component = Some (RoomType_value (room_type room))\<rparr>])
         else if \<not> has_compliant_egress_f64 MIN_CLEAR_OPENING windows
         then (case py_max_f64 (map clear_opening_sqft_f64 windows) of
                 Inl e \<Rightarrow> Inl e
               | Inr max_opening \<Rightarrow>
                   Inr (errors @
                     [\<lparr>code = ''IRC R310.1'',
                       severity = ''ERROR'',
                       message = ''No window meets egress requirement. '' @
                                 ''Required: '' @ py_repr MIN_CLEAR_OPENING @ '' sq ft, '' @
                                 ''Largest found: '' @ format_f_f64 2 max_opening @
                                 '' sq ft'',
                       component = Some (RoomType_value (room_type room))\<rparr>]))
         else Inr errors)"

text \<open>\<^verbatim>\<open>wall.total_r_value < required_rvalue\<close> compares a float with an integer, which
  Python does on the exact values.\<close>

fun thermal_walls_loop_f64 ::
  "int \<Rightarrow> ClimateZone \<Rightarrow> nat \<Rightarrow> FramingType Wall list \<Rightarrow> ValidationError list" where
  "thermal_walls_loop_f64 required_rvalue zone i [] = []"
| "thermal_walls_loop_f64 required_rvalue zone i (wall # rest) =
     (if is_exterior wall
      then (if flt (total_r_value_f64 wall) (Fin (of_int required_rvalue))
            then [\<lparr>code = ''IECC R402.1'',
                   severity = ''ERROR'',
                   message = ''Exterior wall R-value '' @
                             format_f_f64 1 (total_r_value_f64 wall) @
                             '' below required '' @ str_int required_rvalue @
                             '' for Climate Zone '' @ str_int (ClimateZone_value zone),
                   component = Some (''Wall #'' @ str_int (int i + 1) @ '' ('' @
                                     FramingType_value (framing_type wall) @ '')'')\<rparr>]
            else [])
      else [])
     @ thermal_walls_loop_f64 required_rvalue zone (i + 1) rest"

definition check_thermal_envelope_f64 ::
  "(FramingType, RoomType) Room \<Rightarrow> (FramingType, RoomType, ClimateZone) Project
     \<Rightarrow> ValidationError list" where
  "check_thermal_envelope_f64 room project =
     (let required_rvalue = dict_get IECC_RVALUE_REQUIREMENTS (climate_zone project) 20
      in thermal_walls_loop_f64 required_rvalue (climate_zone project) 0 (walls room))"

definition validate_room_f64 ::
  "(FramingType, RoomType) Room \<Rightarrow> (FramingType, RoomType, ClimateZone) Project
     \<Rightarrow> py_error + ValidationError list" where
  "validate_room_f64 room project =
     (let errors = [];
          errors = errors @ check_ceiling_height_f64 room
      in case (if room_type room = BEDROOM
               then (case check_bedroom_egress_f64 room of
                       Inl e \<Rightarrow> Inl e
                     | Inr egress_errors \<Rightarrow> Inr (errors @ egress_errors))
               else Inr errors) of
           Inl e \<Rightarrow> Inl e
         | Inr errors \<Rightarrow> Inr (errors @ check_thermal_envelope_f64 room project))"

subsection \<open>Pydantic models\<close>

definition api_Window_area_sqft_f64 :: "Window \<Rightarrow> pyfloat" where
  "api_Window_area_sqft_f64 self =
     fdiv (fmul (fl (width_inches self)) (fl (height_inches self))) (Fin 144)"

definition api_clear_opening_sqft_f64 :: "Window \<Rightarrow> pyfloat" where
  "api_clear_opening_sqft_f64 self = fmul (api_Window_area_sqft_f64 self) (fl 0.9)"

definition api_area_sqft_f64 :: "string Wall \<Rightarrow> pyfloat" where
  "api_area_sqft_f64 self = fmul (fl (length_feet self)) (fl (height_feet self))"

definition api_net_area_sqft_f64 :: "string Wall \<Rightarrow> pyfloat" where
  "api_net_area_sqft_f64 self =
     (let window_area = py_sum_f64 (map api_Window_area_sqft_f64 (windows self))
      in fsub (api_area_sqft_f64 self) window_area)"

definition api_total_r_value_f64 :: "string Wall \<Rightarrow> pyfloat" where
  "api_total_r_value_f64 self = py_sum_f64 (map (\<lambda>layer. fl (r_value layer)) (layers self))"

definition api_calculate_wall_materials_f64 :: "string Wall \<Rightarrow> py_error + materials_f64" where
  "api_calculate_wall_materials_f64 wall =
     (case float_of_int (api_stud_spacing_inches wall) of
        Inl e \<Rightarrow> Inl e
      | Inr spacing \<Rightarrow>
     (case py_truediv_f64 (fmul (fl (length_feet wall)) (Fin 12)) spacing of
        Inl e \<Rightarrow> Inl e
      | Inr q \<Rightarrow>
     (case py_int_f64 q of
        Inl e \<Rightarrow> Inl e
      | Inr n \<Rightarrow>
     (case float_of_int (n + 1 + 3) of
        Inl e \<Rightarrow> Inl e
      | Inr total_studs_float \<Rightarrow>
          let num_studs_vertical = n + 1;
              num_studs_plates = 3;
              total_studs = num_studs_vertical + num_studs_plates;
              materials = [];
              materials = AList.update ''studs_count'' (PyInt total_studs) materials;
              materials = AList.update ''stud_linear_feet''
                            (PyFloat (fmul total_studs_float (fl (height_feet wall))))
                            materials;
              materials = AList.update ''top_plate_lf''
                            (PyFloat (fmul (fl (length_feet wall)) (Fin 2))) materials;
              materials = AList.update ''bottom_plate_lf''
                            (PyFloat (fl (length_feet wall))) materials;
              materials = AList.update ''sheathing_sqft'' (PyFloat (api_area_sqft_f64 wall))
                            materials;
              materials = AList.update ''drywall_sqft'' (PyFloat (api_area_sqft_f64 wall))
                            materials;
              materials = AList.update ''insulation_sqft''
                            (PyFloat (api_net_area_sqft_f64 wall)) materials;
              materials =
                (if is_exterior wall
                 then (let trench_volume_cuft =
                             fmul (fmul (fl (length_feet wall)) (Fin 2)) (Fin (1 / 2))
                       in AList.update ''gravel_cubic_yards''
                            (PyFloat (fdiv trench_volume_cuft (Fin 27))) materials)
                 else AList.update ''gravel_cubic_yards'' (PyFloat (Fin 0)) materials)
          in Inr materials))))"

fun api_room_walls_loop_f64 ::
  "materials_f64 \<Rightarrow> string Wall list \<Rightarrow> py_error + materials_f64" where
  "api_room_walls_loop_f64 totals [] = Inr totals"
| "api_room_walls_loop_f64 totals (wall # rest) =
     (case api_calculate_wall_materials_f64 wall of
        Inl e \<Rightarrow> Inl e
      | Inr wall_materials \<Rightarrow>
          (case add_to_totals_f64 (map fst totals) totals wall_materials of
             Inl e \<Rightarrow> Inl e
           | Inr totals' \<Rightarrow> api_room_walls_loop_f64 totals' rest))"

definition api_calculate_room_materials_f64 ::
  "(string, string) Room \<Rightarrow> py_error + materials_f64" where
  "api_calculate_room_materials_f64 room =
     (let totals = [(''studs_count'', PyInt 0),
                    (''stud_linear_feet'', PyInt 0),
                    (''top_plate_lf'', PyInt 0),
                    (''bottom_plate_lf'', PyInt 0),
                    (''sheathing_sqft'', PyInt 0),
                    (''drywall_sqft'', PyInt 0),
                    (''insulation_sqft'', PyInt 0),
                    (''gravel_cubic_yards'', PyInt 0)]
      in api_room_walls_loop_f64 totals (walls room))"

fun project_rooms_loop_f64 ::
  "materials_f64 \<Rightarrow> (string, string) Room list \<Rightarrow> py_error + materials_f64" where
  "project_rooms_loop_f64 totals [] = Inr totals"
| "project_rooms_loop_f64 totals (room # rest) =
     (case api_calculate_room_materials_f64 room of
        Inl e \<Rightarrow> Inl e
      | Inr room_materials \<Rightarrow>
          (case add_to_totals_f64 (map fst totals) totals room_materials of
             Inl e \<Rightarrow> Inl e
           | Inr totals' \<Rightarrow> project_rooms_loop_f64 totals' rest))"

definition calculate_project_materials_f64 ::
  "(string, string, int) Project \<Rightarrow> py_error + materials_f64" where
  "calculate_project_materials_f64 project =
     (let totals = [(''studs_count'', PyInt 0),
                    (''stud_linear_feet'', PyInt 0),
                    (''top_plate_lf'', PyInt 0),
                    (''bottom_plate_lf'', PyInt 0),
                    (''sheathing_sqft'', PyInt 0),
                    (''drywall_sqft'', PyInt 0),
                    (''insulation_sqft'', PyInt 0),
                    (''gravel_cubic_yards'', PyInt 0)]
      in project_rooms_loop_f64 totals (rooms project))"

definition api_check_ceiling_height_f64 ::
  "(string, string) Room \<Rightarrow> ComplianceResult list" where
  "api_check_ceiling_height_f64 room =
     (let errors = [];
          MIN_HEIGHT = Fin 7
      in if flt (fl (ceiling_height_feet room)) MIN_HEIGHT
         then (let room_type_str = room_type room
               in errors @
                  [\<lparr>code = ''IRC R305.1'',
                    severity = ''ERROR'',
                    message = ''Ceiling height '' @ py_repr (fl (ceiling_height_feet room)) @
                              ''ft is below minimum '' @ py_repr MIN_HEIGHT @ ''ft'',
                    component = Some room_type_str\<rparr>])
         else errors)"

fun api_has_compliant_egress_f64 :: "pyfloat \<Rightarrow> Window list \<Rightarrow> bool" where
  "api_has_compliant_egress_f64 MIN_CLEAR_OPENING [] = False"
| "api_has_compliant_egress_f64 MIN_CLEAR_OPENING (window # rest) =
     (if fge (api_clear_opening_sqft_f64 window) MIN_CLEAR_OPENING then True
      else api_has_compliant_egress_f64 MIN_CLEAR_OPENING rest)"

definition api_check_bedroom_egress_f64 ::
  "(string, string) Room \<Rightarrow> py_error + ComplianceResult list" where
  "api_check_bedroom_egress_f64 room =
     (let errors = [];
          MIN_CLEAR_OPENING = fl 5.7;
          windows = api_get_all_windows room
      in if windows = []
         then (let room_type_str = room_type room
               in Inr (errors @
                    [\<lparr>code = ''IRC R310.1'',
                      severity = ''ERROR'',
                      message = ''Bedroom requires at least one egress window'',
                      component = Some room_type_str\<rparr>]))
         else if \<not> api_has_compliant_egress_f64 MIN_CLEAR_OPENING windows
         then (case py_max_f64 (map api_clear_opening_sqft_f64 windows) of
                 Inl e \<Rightarrow> Inl e
               | Inr max_opening \<Rightarrow>
                   (let room_type_str = room_type room
                    in Inr (errors @
                         [\<lparr>code = ''IRC R310.1'',
                           severity = ''ERROR'',
                           message = ''No window meets egress requirement. '' @
                                     ''Required: '' @ py_repr MIN_CLEAR_OPENING @
                                     '' sq ft, '' @
                                     ''Largest found: '' @ format_f_f64 2 max_opening @
                                     '' sq ft'',
                           component = Some room_type_str\<rparr>])))
         else Inr errors)"

fun api_thermal_walls_loop_f64 ::
  "int \<Rightarrow> int \<Rightarrow> nat \<Rightarrow> string Wall list \<Rightarrow> ComplianceResult list" where
  "api_thermal_walls_loop_f64 required_rvalue zone i [] = []"
| "api_thermal_walls_loop_f64 required_rvalue zone i (wall # rest) =
     (if is_exterior wall
      then (if flt (api_total_r_value_f64 wall) (Fin (of_int required_rvalue))
            then (let climate_zone_str = zone;
                      framing_type_str = framing_type wall
                  in [\<lparr>code = ''IECC R402.1'',
                       severity = ''ERROR'',
                       message = ''Exterior wall R-value '' @
                                 format_f_f64 1 (api_total_r_value_f64 wall) @
                                 '' below required '' @ str_int required_rvalue @
                                 '' for Climate Zone '' @ str_int climate_zone_str,
                       component = Some (''Wall #'' @ str_int (int i + 1) @ '' ('' @
                                         framing_type_str @ '')'')\<rparr>])
            else [])
      else [])
     @ api_thermal_walls_loop_f64 required_rvalue zone (i + 1) rest"

definition api_check_thermal_envelope_f64 ::
  "(string, string) Room \<Rightarrow> (string, string, int) Project \<Rightarrow> ComplianceResult list" where
  "api_check_thermal_envelope_f64 room project =
     (let required_rvalue = dict_get api_IECC_RVALUE_REQUIREMENTS (climate_zone project) 20
      in api_thermal_walls_loop_f64 required_rvalue (climate_zone project) 0 (walls room))"

definition api_validate_room_f64 ::
  "(string, string) Room \<Rightarrow> (string, string, int) Project
     \<Rightarrow> py_error + ComplianceResult list" where
  "api_validate_room_f64 room project =
     (let errors = [];
          errors = errors @ api_check_ceiling_height_f64 room
      in case (if room_type room = RoomType_value BEDROOM
               then (case api_check_bedroom_egress_f64 room of
                       Inl e \<Rightarrow> Inl e
                     | Inr egress_errors \<Rightarrow> Inr (errors @ egress_errors))
               else Inr errors) of
           Inl e \<Rightarrow> Inl e
         | Inr errors \<Rightarrow> Inr (errors @ api_check_thermal_envelope_f64 room project))"

fun validate_rooms_loop_f64 ::
  "ComplianceResult list \<Rightarrow> nat \<Rightarrow> (string, string, int) Project
     \<Rightarrow> (string, string) Room list \<Rightarrow> py_error + ComplianceResult list" where
  "validate_rooms_loop_f64 all_errors room_idx project [] = Inr all_errors"
| "validate_rooms_loop_f64 all_errors room_idx project (room # rest) =
     (case api_validate_room_f64 room project of
        Inl e \<Rightarrow> Inl e
      | Inr room_errors \<Rightarrow>
          validate_rooms_loop_f64
            (all_errors @ map (add_room_context room_idx room) room_errors)
            (room_idx + 1) project rest)"

definition validate_project_f64 ::
  "(string, string, int) Project \<Rightarrow> py_error + ComplianceResult list" where
  "validate_project_f64 project = validate_rooms_loop_f64 [] 0 project (rooms project)"

subsection \<open>The bounds of the pydantic models on doubles\<close>

text \<open>
  pydantic checks \<^verbatim>\<open>gt\<close>, \<^verbatim>\<open>ge\<close> and \<^verbatim>\<open>le\<close> of a \<^verbatim>\<open>Field\<close> on the float it stores,
  and \<^verbatim>\<open>validate_height\<close> compares that float with \<^verbatim>\<open>6.0\<close> and \<^verbatim>\<open>20.0\<close>. An
  infinity passes \<^verbatim>\<open>gt=0\<close>.
\<close>

definition validate_height_f64 :: "pyfloat \<Rightarrow> py_error + pyfloat" where
  "validate_height_f64 v =
     (if flt v (Fin 6) then Inl (ValueError ''Wall height must be at least 6 feet'')
      else if fgt v (Fin 20)
      then Inl (ValueError ''Wall height cannot exceed 20 feet (residential)'')
      else Inr v)"

definition MaterialLayer_valid_f64 :: "MaterialLayer \<Rightarrow> bool" where
  "MaterialLayer_valid_f64 l \<longleftrightarrow>
     fgt (fl (thickness_inches l)) (Fin 0) \<and> fge (fl (r_value l)) (Fin 0)"

definition Window_valid_f64 :: "Window \<Rightarrow> bool" where
  "Window_valid_f64 w \<longleftrightarrow>
     fgt (fl (width_inches w)) (Fin 0) \<and> fgt (fl (height_inches w)) (Fin 0) \<and>
     fgt (fl (u_factor w)) (Fin 0) \<and> fle (fl (u_factor w)) (Fin 2)"

definition Wall_valid_f64 :: "'f Wall \<Rightarrow> bool" where
  "Wall_valid_f64 w \<longleftrightarrow>
     fgt (fl (length_feet w)) (Fin 0) \<and> fgt (fl (height_feet w)) (Fin 0) \<and>
     validate_height_f64 (fl (height_feet w)) = Inr (fl (height_feet w)) \<and>
     list_all MaterialLayer_valid_f64 (layers w) \<and> list_all Window_valid_f64 (windows w)"

definition Room_valid_f64 :: "('f, 'r) Room \<Rightarrow> bool" where
  "Room_valid_f64 r \<longleftrightarrow>
     fgt (fl (ceiling_height_feet r)) (Fin 0) \<and> length (walls r) \<ge> 1 \<and>
     list_all Wall_valid_f64 (walls r)"

definition Project_valid_f64 :: "('f, 'r, 'z) Project \<Rightarrow> bool" where
  "Project_valid_f64 p \<longleftrightarrow> length (rooms p) \<ge> 1 \<and> list_all Room_valid_f64 (rooms p)"

text \<open>The run of a wall in inches, \<^verbatim>\<open>wall.length_feet * 12\<close>, is a finite double. It is
  not when the length is about \<^verbatim>\<open>1.5e307\<close> feet or more.\<close>

definition run_is_finite :: "'f Wall \<Rightarrow> bool" where
  "run_is_finite w \<longleftrightarrow> is_finite (fmul (fl (length_feet w)) (Fin 12))"

section \<open>Inputs at the limits of the arithmetic\<close>

text \<open>A wall of \<^verbatim>\<open>1.3333333333333333\<close> feet: the double is below 4/3, its product with
  12 rounds to \<^verbatim>\<open>16.0\<close>. And a wall of \<^verbatim>\<open>1e308\<close> feet, whose product with 12 is
  beyond the largest double.\<close>

definition short_wall :: "FramingType Wall" where
  "short_wall =
     \<lparr>length_feet = 1.3333333333333333, height_feet = 8.0, framing_type = STUD_2x6_16OC,
      is_exterior = True, layers = exterior_layers, windows = []\<rparr>"

definition huge_wall :: "FramingType Wall" where
  "huge_wall =
     \<lparr>length_feet = 10 ^ 308, height_feet = 8.0, framing_type = STUD_2x6_16OC,
      is_exterior = True, layers = exterior_layers, windows = []\<rparr>"

definition huge_residence :: "(FramingType, RoomType, ClimateZone) Project" where
  "huge_residence =
     \<lparr>project_name = ''Maine Residence'', location_zip = ''04101'', climate_zone = ZONE_6,
      rooms = [\<lparr>room_type = LIVING, ceiling_height_feet = 8.0, walls = [huge_wall]\<rparr>]\<rparr>"

text \<open>The demonstration bedroom with other windows in its north wall.\<close>

definition bedroom_with_windows :: "(real \<times> real) list \<Rightarrow> (FramingType, RoomType) Room" where
  "bedroom_with_windows sizes =
     bedroom\<lparr>walls :=
       [north_wall\<lparr>windows :=
          map (\<lambda>(w, h). \<lparr>width_inches = w, height_inches = h, u_factor = 0.30,
                          window_type = ''Double-Hung''\<rparr>) sizes\<rparr>,
        south_wall, east_wall, west_wall]\<rparr>"

text \<open>A room of one exterior wall whose layers have the given R-values, and a project
  that holds it in a given climate zone.\<close>

definition layered_wall :: "real list \<Rightarrow> FramingType Wall" where
  "layered_wall rs =
     \<lparr>length_feet = 12.0, height_feet = 8.0, framing_type = STUD_2x6_16OC, is_exterior = True,
      layers = map (\<lambda>r. \<lparr>name = ''Layer'', thickness_inches = 0.5, r_value = r\<rparr>) rs,
      windows = []\<rparr>"

definition layered_room :: "real list \<Rightarrow> (FramingType, RoomType) Room" where
  "layered_room rs =
     \<lparr>room_type = LIVING, ceiling_height_feet = 8.0, walls = [layered_wall rs]\<rparr>"

definition residence_in :: "'z \<Rightarrow> ('f, 'r, 'z) Project" where
  "residence_in zone =
     \<lparr>project_name = ''Residence'', location_zip = ''04101'', climate_zone = zone,
      rooms = []\<rparr>"

section \<open>Properties\<close>

subsection \<open>Closed form of the wall materials\<close>

lemma stud_spacing_inches_cases:
  "stud_spacing_inches w =
     (case framing_type w of STUD_2x4_16OC \<Rightarrow> 16 | STUD_2x6_16OC \<Rightarrow> 16
      | STUD_2x4_24OC \<Rightarrow> 24 | STUD_2x6_24OC \<Rightarrow> 24)"
  by (cases "framing_type w") (simp_all add: stud_spacing_inches_def)

lemma stud_spacing_inches_nonzero: "stud_spacing_inches w \<noteq> 0"
  by (cases "framing_type w") (simp_all add: stud_spacing_inches_cases)

lemma calculate_wall_materials_eq:
  "calculate_wall_materials w =
     Inr [(''studs_count'',
             of_int (py_int (length_feet w * 12 / of_int (stud_spacing_inches w)) + 1 + 3)),
          (''stud_linear_feet'',
             of_int (py_int (length_feet w * 12 / of_int (stud_spacing_inches w)) + 1 + 3)
               * height_feet w),
          (''top_plate_lf'', length_feet w * 2),
          (''bottom_plate_lf'', length_feet w),
          (''sheathing_sqft'', area_sqft w),
          (''drywall_sqft'', area_sqft w),
          (''insulation_sqft'', net_area_sqft w),
          (''gravel_cubic_yards'',
             if is_exterior w then length_feet w * 2.0 * 0.5 / 27.0 else 0.0)]"
  by (simp add: calculate_wall_materials_def py_truediv_def stud_spacing_inches_nonzero Let_def)

subsection \<open>The aggregation loops\<close>





lemma api_stud_spacing_inches_nonzero: "api_stud_spacing_inches w \<noteq> 0"
  by (simp add: api_stud_spacing_inches_def Let_def)

lemma api_calculate_wall_materials_eq:
  "api_calculate_wall_materials w =
     Inr [(''studs_count'',
             of_int (py_int (length_feet w * 12 / of_int (api_stud_spacing_inches w)) + 1 + 3)),
          (''stud_linear_feet'',
             of_int (py_int (length_feet w * 12 / of_int (api_stud_spacing_inches w)) + 1 + 3)
               * height_feet w),
          (''top_plate_lf'', length_feet w * 2),
          (''bottom_plate_lf'', length_feet w),
          (''sheathing_sqft'', api_area_sqft w),
          (''drywall_sqft'', api_area_sqft w),
          (''insulation_sqft'', api_net_area_sqft w),
          (''gravel_cubic_yards'',
             if is_exterior w then length_feet w * 2.0 * 0.5 / 27.0 else 0.0)]"
  by (simp add: api_calculate_wall_materials_def py_truediv_def
      api_stud_spacing_inches_nonzero Let_def)

















subsection \<open>Materials of a wall\<close>

lemma py_int_nonneg: "0 \<le> x \<Longrightarrow> py_int x = \<lfloor>x\<rfloor>"
  by (simp add: py_int_def)

lemma stud_spacing_inches_pos: "0 < stud_spacing_inches w"
  by (cases "framing_type w") (simp_all add: stud_spacing_inches_cases)

lemma north_wall_valid: "Wall_valid north_wall"
  by (simp add: Wall_valid_def north_wall_def validate_height_def exterior_layers_def
      MaterialLayer_valid_def Window_valid_def small_window_def)


text \<open>
  Claim C9. A wall can satisfy every constraint of the data model (positive length, height
  within 6 and 20 feet, positive window sizes) while its windows cover more than its gross
  area: validation accepts it, the calculation returns without error, and the net area and
  the insulation quantity are negative.
\<close>

theorem negative_insulation_wall_exists:
  "\<exists>w. Wall_valid w \<and> Wall_valid (api_of_wall w) \<and>
        area_sqft w < sum_list (map Window_area_sqft (windows w)) \<and>
        net_area_sqft w < 0 \<and>
        (\<exists>m v. calculate_wall_materials w = Inr m \<and>
               map_of m ''insulation_sqft'' = Some v \<and> v < 0) \<and>
        (\<exists>m v. api_calculate_wall_materials (api_of_wall w) = Inr m \<and>
               map_of m ''insulation_sqft'' = Some v \<and> v < 0)"
proof -
  have valid: "Wall_valid glazed_wall" "Wall_valid (api_of_wall glazed_wall)"
    by (simp_all add: Wall_valid_def api_of_wall_def glazed_wall_def validate_height_def
        Window_valid_def numeral_3_eq_3)
  have area: "area_sqft glazed_wall = 80"
    "sum_list (map Window_area_sqft (windows glazed_wall)) = 108"
    by (simp_all add: area_sqft_def glazed_wall_def Window_area_sqft_def numeral_3_eq_3)
  then have net: "net_area_sqft glazed_wall = - 28"
    by (simp add: net_area_sqft_def)
  have api_net: "api_net_area_sqft (api_of_wall glazed_wall) = - 28"
    by (simp add: api_net_area_sqft_def api_area_sqft_def api_of_wall_def glazed_wall_def
        api_Window_area_sqft_def numeral_3_eq_3)
  have "\<exists>m v. calculate_wall_materials glazed_wall = Inr m \<and>
          map_of m ''insulation_sqft'' = Some v \<and> v < 0"
    by (simp add: calculate_wall_materials_eq net)
  moreover have "\<exists>m v. api_calculate_wall_materials (api_of_wall glazed_wall) = Inr m \<and>
          map_of m ''insulation_sqft'' = Some v \<and> v < 0"
    by (simp add: api_calculate_wall_materials_eq api_net)
  ultimately show ?thesis using valid area net by (intro exI[of _ glazed_wall]) simp
qed

subsection \<open>Closed forms of the three checks\<close>

lemma float_repr_7: "float_repr 7 = ''7.0''"
  by code_simp

lemma float_repr_5_7: "float_repr 5.7 = ''5.7''"
  by code_simp


lemma format_f_3_6: "format_f 2 (18 / 5) = ''3.60''"
  by (simp add: format_f_def round_half_even_def str_digits.simps zfill_def digit_char_def
      Let_def)

lemma foldl_extend: "foldl (\<lambda>acc x. acc @ f x) a xs = a @ concat (map f xs)"
  by (induction xs arbitrary: a) simp_all

lemma get_all_windows_concat: "get_all_windows r = concat (map windows (walls r))"
  by (simp add: get_all_windows_def foldl_extend)

lemma api_get_all_windows_concat: "api_get_all_windows r = concat (map windows (walls r))"
  by (simp add: api_get_all_windows_def foldl_extend)

lemma has_compliant_egress_ex:
  "has_compliant_egress m ws = list_ex (\<lambda>w. clear_opening_sqft w \<ge> m) ws"
  by (induction ws) simp_all

lemma py_max_nonempty: "xs \<noteq> [] \<Longrightarrow> py_max xs = Inr (Max (set xs))"
  by (cases xs) (simp_all add: Max.set_eq_fold[symmetric])

lemma check_bedroom_egress_eq:
  "check_bedroom_egress r =
     Inr (if get_all_windows r = []
          then [finding ''IRC R310.1'' ''Bedroom requires at least one egress window''
                  (RoomType_value (room_type r))]
          else if list_ex (\<lambda>w. clear_opening_sqft w \<ge> 5.7) (get_all_windows r) then []
          else [finding ''IRC R310.1''
                  (''No window meets egress requirement. Required: 5.7 sq ft, Largest found: '' @
                   format_f 2 (Max (clear_opening_sqft ` set (get_all_windows r))) @ '' sq ft'')
                  (RoomType_value (room_type r))])"
  by (simp add: check_bedroom_egress_def Let_def has_compliant_egress_ex py_max_nonempty
      finding_def float_repr_5_7)

lemma check_ceiling_height_eq:
  "check_ceiling_height r =
     (if ceiling_height_feet r < 7.0
      then [finding ''IRC R305.1''
              (''Ceiling height '' @ float_repr (ceiling_height_feet r) @
               ''ft is below minimum 7.0ft'')
              (RoomType_value (room_type r))]
      else [])"
  by (simp add: check_ceiling_height_def Let_def finding_def float_repr_7)

lemma thermal_walls_loop_eq:
  "thermal_walls_loop req zone i ws =
     map (\<lambda>(j, wall).
            finding ''IECC R402.1''
              (''Exterior wall R-value '' @ format_f 1 (total_r_value wall) @
               '' below required '' @ str_int req @
               '' for Climate Zone '' @ str_int (ClimateZone_value zone))
              (''Wall #'' @ str_int (int j + 1) @ '' ('' @
               FramingType_value (framing_type wall) @ '')''))
         (filter (\<lambda>(j, wall). is_exterior wall \<and> total_r_value wall < of_int req)
            (enumerate i ws))"
  by (induction ws arbitrary: i) (simp_all add: finding_def)


subsection \<open>The findings of a room, by code\<close>

lemma validate_room_eq:
  "check_bedroom_egress r = Inr eg \<Longrightarrow>
   validate_room r p =
     Inr (check_ceiling_height r @ (if room_type r = BEDROOM then eg else []) @
          check_thermal_envelope r p)"
  by (simp add: validate_room_def Let_def)






lemma clear_opening_sqft_eq:
  "clear_opening_sqft w = width_inches w * height_inches w / 144 * 0.9"
  by (simp add: clear_opening_sqft_def Window_area_sqft_def)
lemma bedroom_windows: "concat (map windows (walls bedroom)) = [small_window]"
  by (simp add: bedroom_def north_wall_def south_wall_def east_wall_def west_wall_def)

lemma small_window_opening: "clear_opening_sqft small_window = 18 / 5"
  by (simp add: clear_opening_sqft_eq small_window_def)



lemma IECC_required_eq:
  "dict_get IECC_RVALUE_REQUIREMENTS zone 20 =
     (case zone of ZONE_1 \<Rightarrow> 13 | ZONE_2 \<Rightarrow> 13 | ZONE_3 \<Rightarrow> 13 | ZONE_4 \<Rightarrow> 15
      | ZONE_5 \<Rightarrow> 20 | ZONE_6 \<Rightarrow> 20 | ZONE_7 \<Rightarrow> 21 | ZONE_8 \<Rightarrow> 21)"
  by (cases zone) (simp_all add: dict_get_def IECC_RVALUE_REQUIREMENTS_def)

lemma api_IECC_required_eq:
  "dict_get api_IECC_RVALUE_REQUIREMENTS n 20 =
     (if n \<in> {1, 2, 3} then 13 else if n = 4 then 15 else if n \<in> {5, 6} then 20
      else if n \<in> {7, 8} then 21 else 20)"
  by (simp add: dict_get_def api_IECC_RVALUE_REQUIREMENTS_def)
subsection \<open>The two copies agree\<close>

lemma api_of_wall_simps:
  "length_feet (api_of_wall w) = length_feet w"
  "height_feet (api_of_wall w) = height_feet w"
  "framing_type (api_of_wall w) = FramingType_value (framing_type w)"
  "is_exterior (api_of_wall w) = is_exterior w"
  "layers (api_of_wall w) = layers w"
  "windows (api_of_wall w) = windows w"
  by (simp_all add: api_of_wall_def)

lemma api_of_room_simps:
  "room_type (api_of_room r) = RoomType_value (room_type r)"
  "ceiling_height_feet (api_of_room r) = ceiling_height_feet r"
  "walls (api_of_room r) = map api_of_wall (walls r)"
  by (simp_all add: api_of_room_def)

lemma api_of_project_simps:
  "climate_zone (api_of_project p) = ClimateZone_value (climate_zone p)"
  "rooms (api_of_project p) = map api_of_room (rooms p)"
  by (simp_all add: api_of_project_def)

lemma api_Window_area_sqft_same: "api_Window_area_sqft = Window_area_sqft"
  by (rule ext) (simp add: api_Window_area_sqft_def Window_area_sqft_def)

lemma api_clear_opening_sqft_same: "api_clear_opening_sqft = clear_opening_sqft"
  by (rule ext)
    (simp add: api_clear_opening_sqft_def clear_opening_sqft_def api_Window_area_sqft_same)

lemma api_wall_properties_same:
  "api_area_sqft (api_of_wall w) = area_sqft w"
  "api_net_area_sqft (api_of_wall w) = net_area_sqft w"
  "api_total_r_value (api_of_wall w) = total_r_value w"
  "api_stud_spacing_inches (api_of_wall w) = stud_spacing_inches w"
  by (simp_all add: api_area_sqft_def area_sqft_def api_net_area_sqft_def net_area_sqft_def
      api_total_r_value_def total_r_value_def api_stud_spacing_inches_def
      stud_spacing_inches_def api_of_wall_simps api_Window_area_sqft_same Let_def)

lemma api_calculate_wall_materials_same:
  "api_calculate_wall_materials (api_of_wall w) = calculate_wall_materials w"
  by (simp add: api_calculate_wall_materials_eq calculate_wall_materials_eq
      api_wall_properties_same api_of_wall_simps)

lemma api_room_walls_loop_same:
  "api_room_walls_loop totals (map api_of_wall ws) = room_walls_loop totals ws"
  by (induction ws arbitrary: totals)
    (simp_all add: api_calculate_wall_materials_same split: sum.splits)

lemma api_calculate_room_materials_same:
  "api_calculate_room_materials (api_of_room r) = calculate_room_materials r"
  by (simp add: api_calculate_room_materials_def calculate_room_materials_def
      api_room_walls_loop_same api_of_room_simps)

lemma api_check_ceiling_height_same:
  "api_check_ceiling_height (api_of_room r) = check_ceiling_height r"
  by (simp add: api_check_ceiling_height_def check_ceiling_height_def api_of_room_simps
      Let_def)

lemma api_get_all_windows_same: "api_get_all_windows (api_of_room r) = get_all_windows r"
  by (simp add: api_get_all_windows_concat get_all_windows_concat api_of_room_simps
      api_of_wall_simps comp_def)

lemma api_has_compliant_egress_same:
  "api_has_compliant_egress m ws = has_compliant_egress m ws"
  by (induction ws) (simp_all add: api_clear_opening_sqft_same)

lemma api_check_bedroom_egress_same:
  "api_check_bedroom_egress (api_of_room r) = check_bedroom_egress r"
  by (simp add: api_check_bedroom_egress_def check_bedroom_egress_def
      api_get_all_windows_same api_has_compliant_egress_same api_clear_opening_sqft_same
      api_of_room_simps Let_def split: sum.splits)

lemma api_thermal_walls_loop_same:
  "api_thermal_walls_loop req (ClimateZone_value z) i (map api_of_wall ws)
     = thermal_walls_loop req z i ws"
  by (induction ws arbitrary: i)
    (simp_all add: api_wall_properties_same api_of_wall_simps Let_def)

lemma api_IECC_lookup_same:
  "dict_get api_IECC_RVALUE_REQUIREMENTS (ClimateZone_value z) 20
     = dict_get IECC_RVALUE_REQUIREMENTS z 20"
  by (cases z) (simp_all add: dict_get_def api_IECC_RVALUE_REQUIREMENTS_def
      IECC_RVALUE_REQUIREMENTS_def)

lemma api_check_thermal_envelope_same:
  "api_check_thermal_envelope (api_of_room r) (api_of_project p)
     = check_thermal_envelope r p"
  by (simp add: api_check_thermal_envelope_def check_thermal_envelope_def
      api_of_room_simps api_of_project_simps api_IECC_lookup_same
      api_thermal_walls_loop_same Let_def)

lemma RoomType_value_Bedroom: "RoomType_value t = RoomType_value BEDROOM \<longleftrightarrow> t = BEDROOM"
  by (cases t) simp_all

lemma api_validate_room_same:
  "api_validate_room (api_of_room r) (api_of_project p) = validate_room r p"
  by (simp add: api_validate_room_def validate_room_def api_check_ceiling_height_same
      api_check_bedroom_egress_same api_check_thermal_envelope_same
      RoomType_value_Bedroom api_of_room_simps(1) Let_def del: RoomType_value.simps
      split: sum.splits)

text \<open>
  Claim C10. The two copies of the core logic agree. For a dataclass value and the pydantic
  value with the same field values (\<^const>\<open>api_of_wall\<close>, \<^const>\<open>api_of_room\<close>,
  \<^const>\<open>api_of_project\<close>), \<^verbatim>\<open>calculate_wall_materials\<close> and
  \<^verbatim>\<open>calculate_room_materials\<close> return the same quantities, and \<^verbatim>\<open>validate_room\<close>
  returns the same findings in the same order, with the same code, severity, message and
  component.
\<close>

theorem api_copy_equivalent:
  "api_calculate_wall_materials (api_of_wall w) = calculate_wall_materials w \<and>
   api_calculate_room_materials (api_of_room r) = calculate_room_materials r \<and>
   api_validate_room (api_of_room r) (api_of_project p) = validate_room r p"
  by (simp only: api_calculate_wall_materials_same api_calculate_room_materials_same
      api_validate_room_same simp_thms)

subsection \<open>The findings of a project; both operations return\<close>

lemma api_check_bedroom_egress_total: "\<exists>eg. api_check_bedroom_egress r = Inr eg"
  by (cases "api_get_all_windows r")
    (simp_all add: api_check_bedroom_egress_def Let_def)

lemma api_validate_room_eq:
  "api_check_bedroom_egress r = Inr eg \<Longrightarrow>
   api_validate_room r p =
     Inr (api_check_ceiling_height r @ (if room_type r = ''Bedroom'' then eg else []) @
          api_check_thermal_envelope r p)"
  by (simp add: api_validate_room_def Let_def)

lemma api_validate_room_total: "\<exists>es. api_validate_room r p = Inr es"
  using api_check_bedroom_egress_total[of r] api_validate_room_eq[of r _ p] by blast

lemma api_room_findings_exist:
  "\<exists>per_room. list_all2 (\<lambda>r es. api_validate_room r p = Inr es) rs per_room"
proof (induction rs)
  case Nil
  then show ?case by simp
next
  case (Cons r rs)
  then obtain per_room where "list_all2 (\<lambda>r es. api_validate_room r p = Inr es) rs per_room" ..
  moreover obtain es where "api_validate_room r p = Inr es"
    using api_validate_room_total by blast
  ultimately have "list_all2 (\<lambda>r es. api_validate_room r p = Inr es) (r # rs) (es # per_room)"
    by simp
  then show ?case ..
qed

lemma validate_rooms_loop_eq:
  "list_all2 (\<lambda>r es. api_validate_room r p = Inr es) rs per_room \<Longrightarrow>
   validate_rooms_loop all_errors i p rs =
     Inr (all_errors @
          concat (map (\<lambda>(j, r, es). map (add_room_context j r) es)
                    (enumerate i (zip rs per_room))))"
  by (induction arbitrary: all_errors i rule: list_all2_induct) simp_all

lemma add_room_context_eq:
  "add_room_context i r e =
     e\<lparr>component :=
         Some (''Room '' @ str_int (int i + 1) @ '' ('' @ room_type r @ '')'' @
               (case component e of None \<Rightarrow> [] | Some c \<Rightarrow> if c = [] then [] else '' - '' @ c))\<rparr>"
  by (simp add: add_room_context_def Let_def split: option.splits)

text \<open>
  Claim C7. \<^verbatim>\<open>validate_room\<close> returns the findings of the ceiling check, then those of
  the egress check when the room is a bedroom, then those of the thermal check.
  \<^verbatim>\<open>validate_project\<close> goes through the rooms in list order and returns the findings of
  all rooms one after the other, each room's in the order \<^verbatim>\<open>validate_room\<close> gave them,
  with every component rewritten to "Room i (room type)", \<open>i\<close> counted from 1, followed
  by " - " and the former component when the finding had one (not \<^verbatim>\<open>None\<close> and not
  empty).
\<close>

theorem validate_project_order:
  "(\<exists>egress. check_bedroom_egress room = Inr egress \<and>
      validate_room room project =
        Inr (check_ceiling_height room @ (if room_type room = BEDROOM then egress else []) @
             check_thermal_envelope room project)) \<and>
   (\<exists>egress. api_check_bedroom_egress api_room = Inr egress \<and>
      api_validate_room api_room api_project =
        Inr (api_check_ceiling_height api_room @
             (if room_type api_room = ''Bedroom'' then egress else []) @
             api_check_thermal_envelope api_room api_project)) \<and>
   (\<exists>per_room.
      list_all2 (\<lambda>r es. api_validate_room r api_project = Inr es) (rooms api_project) per_room \<and>
      validate_project api_project =
        Inr (concat (map (\<lambda>(i, r, es). map (add_room_context i r) es)
                       (enumerate 0 (zip (rooms api_project) per_room))))) \<and>
   add_room_context i r e =
     e\<lparr>component :=
         Some (''Room '' @ str_int (int i + 1) @ '' ('' @ room_type r @ '')'' @
               (case component e of None \<Rightarrow> [] | Some c \<Rightarrow> if c = [] then [] else '' - '' @ c))\<rparr>"
proof (intro conjI)
  show "\<exists>egress. check_bedroom_egress room = Inr egress \<and>
      validate_room room project =
        Inr (check_ceiling_height room @ (if room_type room = BEDROOM then egress else []) @
             check_thermal_envelope room project)"
    using check_bedroom_egress_eq[of room] validate_room_eq[of room _ project] by blast
  show "\<exists>egress. api_check_bedroom_egress api_room = Inr egress \<and>
      api_validate_room api_room api_project =
        Inr (api_check_ceiling_height api_room @
             (if room_type api_room = ''Bedroom'' then egress else []) @
             api_check_thermal_envelope api_room api_project)"
    using api_check_bedroom_egress_total[of api_room]
      api_validate_room_eq[of api_room _ api_project] by blast
  obtain per_room where
    pr: "list_all2 (\<lambda>r es. api_validate_room r api_project = Inr es) (rooms api_project) per_room"
    using api_room_findings_exist by blast
  from validate_rooms_loop_eq[OF pr, of "[]" 0] pr
  show "\<exists>per_room.
      list_all2 (\<lambda>r es. api_validate_room r api_project = Inr es) (rooms api_project) per_room \<and>
      validate_project api_project =
        Inr (concat (map (\<lambda>(i, r, es). map (add_room_context i r) es)
                       (enumerate 0 (zip (rooms api_project) per_room))))"
    unfolding validate_project_def by auto
  show "add_room_context i r e =
     e\<lparr>component :=
         Some (''Room '' @ str_int (int i + 1) @ '' ('' @ room_type r @ '')'' @
               (case component e of None \<Rightarrow> [] | Some c \<Rightarrow> if c = [] then [] else '' - '' @ c))\<rparr>"
    by (rule add_room_context_eq)
qed
subsection \<open>The demonstration project evaluated\<close>

lemma str_int_small:
  "str_int 1 = ''1''" "str_int 2 = ''2''" "str_int 3 = ''3''" "str_int 4 = ''4''"
  "str_int 6 = ''6''" "str_int 20 = ''20''"
  by (simp_all add: str_int_def str_digits.simps digit_char_def)

lemma format_f_0: "format_f (Suc 0) 0 = ''0.0''"
  by (simp add: format_f_def round_half_even_def str_digits.simps zfill_def digit_char_def
      Let_def)

lemma demo_r_values:
  "total_r_value north_wall = 413 / 20" "total_r_value south_wall = 413 / 20"
  "total_r_value east_wall = 413 / 20" "total_r_value west_wall = 0"
  by (simp_all add: total_r_value_def north_wall_def south_wall_def east_wall_def
      west_wall_def exterior_layers_def)

lemma demo_wall_fields:
  "is_exterior north_wall" "is_exterior south_wall" "is_exterior east_wall"
  "\<not> is_exterior west_wall"
  "framing_type west_wall = STUD_2x6_16OC"
  by (simp_all add: north_wall_def south_wall_def east_wall_def west_wall_def)
lemma demo_walls_valid:
  "Wall_valid north_wall" "Wall_valid south_wall" "Wall_valid east_wall" "Wall_valid west_wall"
  "Wall_valid (north_wall\<lparr>windows := [compliant_window]\<rparr>)"
  by (simp_all add: Wall_valid_def north_wall_def south_wall_def east_wall_def west_wall_def
      validate_height_def exterior_layers_def MaterialLayer_valid_def Window_valid_def
      small_window_def compliant_window_def)

lemma Wall_valid_api_of_wall: "Wall_valid (api_of_wall w) = Wall_valid w"
  by (simp add: Wall_valid_def api_of_wall_simps)

lemma Room_valid_api_of_room: "Room_valid (api_of_room r) = Room_valid r"
  by (simp add: Room_valid_def api_of_room_simps list_all_iff Wall_valid_api_of_wall)

lemma Project_valid_api_of_project: "Project_valid (api_of_project p) = Project_valid p"
  by (simp add: Project_valid_def api_of_project_simps list_all_iff Room_valid_api_of_room)

lemma two_bedroom_residence_valid: "Project_valid two_bedroom_residence"
  by (simp add: Project_valid_def two_bedroom_residence_def maine_residence_def Room_valid_def
      bedroom_def fixed_bedroom_def demo_walls_valid)

lemma demo_thermal_none:
  "check_thermal_envelope bedroom maine_residence = []"
  "check_thermal_envelope fixed_bedroom maine_residence = []"
proof -
  have r: "total_r_value (north_wall\<lparr>windows := [compliant_window]\<rparr>) = 413 / 20"
    by (simp add: total_r_value_def north_wall_def exterior_layers_def)
  have x: "is_exterior (north_wall\<lparr>windows := [compliant_window]\<rparr>)"
    by (simp add: north_wall_def)
  show "check_thermal_envelope bedroom maine_residence = []"
    by (simp add: check_thermal_envelope_def IECC_required_eq maine_residence_def bedroom_def
        demo_r_values demo_wall_fields)
  show "check_thermal_envelope fixed_bedroom maine_residence = []"
    by (simp add: check_thermal_envelope_def IECC_required_eq maine_residence_def bedroom_def
        fixed_bedroom_def demo_r_values demo_wall_fields r x)
qed

lemma bedroom_findings:
  "validate_room bedroom maine_residence =
     Inr [finding ''IRC R310.1''
            (''No window meets egress requirement. Required: 5.7 sq ft, '' @
             ''Largest found: 3.60 sq ft'')
            ''Bedroom'']"
proof -
  have t: "check_thermal_envelope bedroom maine_residence = []"
    by (rule demo_thermal_none)
  have c: "check_ceiling_height bedroom = []"
    by (simp add: check_ceiling_height_eq bedroom_def)
  have e: "check_bedroom_egress bedroom =
     Inr [finding ''IRC R310.1''
            (''No window meets egress requirement. Required: 5.7 sq ft, '' @
             ''Largest found: 3.60 sq ft'')
            ''Bedroom'']"
    by (simp add: check_bedroom_egress_eq get_all_windows_concat bedroom_windows
        small_window_opening format_f_3_6) (simp add: bedroom_def)
  show ?thesis
    by (simp add: validate_room_eq[OF e] t c) (simp add: bedroom_def)
qed

lemma fixed_bedroom_findings: "validate_room fixed_bedroom maine_residence = Inr []"
proof -
  have c: "check_ceiling_height fixed_bedroom = []"
    by (simp add: check_ceiling_height_eq bedroom_def fixed_bedroom_def)
  have w: "get_all_windows fixed_bedroom = [compliant_window]"
    by (simp add: get_all_windows_concat fixed_bedroom_def bedroom_def north_wall_def
        south_wall_def east_wall_def west_wall_def)
  have e: "check_bedroom_egress fixed_bedroom = Inr []"
    by (simp add: check_bedroom_egress_eq w clear_opening_sqft_eq compliant_window_def)
  show ?thesis
    by (simp add: validate_room_eq[OF e] demo_thermal_none c)
qed

lemma validate_room_zone_only:
  "climate_zone p = climate_zone p' \<Longrightarrow> validate_room r p = validate_room r p'"
proof -
  assume "climate_zone p = climate_zone p'"
  then have "check_thermal_envelope r p = check_thermal_envelope r p'"
    by (simp add: check_thermal_envelope_def)
  moreover obtain eg where "check_bedroom_egress r = Inr eg"
    using check_bedroom_egress_eq by blast
  ultimately show ?thesis by (simp add: validate_room_eq)
qed

lemma list_all2_two:
  "list_all2 P [a, b] ys \<Longrightarrow> \<exists>x y. ys = [x, y] \<and> P a x \<and> P b y"
  by (auto simp: list_all2_Cons1)

text \<open>The project of the two demonstration bedrooms: the first room has one finding, the
  second none, and the finding is labelled with room 1.\<close>

theorem validate_project_two_bedrooms:
  "validate_project (api_of_project two_bedroom_residence) =
     Inr [finding ''IRC R310.1''
            (''No window meets egress requirement. Required: 5.7 sq ft, '' @
             ''Largest found: 3.60 sq ft'')
            ''Room 1 (Bedroom) - Bedroom'']"
proof -
  let ?p = "api_of_project two_bedroom_residence"
  have same: "\<And>r. api_validate_room (api_of_room r) ?p = validate_room r maine_residence"
    using validate_room_zone_only[of two_bedroom_residence maine_residence]
    by (simp add: api_validate_room_same two_bedroom_residence_def)
  have rooms: "rooms ?p = [api_of_room bedroom, api_of_room fixed_bedroom]"
    by (simp add: api_of_project_simps two_bedroom_residence_def)
  from validate_project_order[of bedroom maine_residence "api_of_room bedroom" ?p 0
      "api_of_room bedroom" "finding [] [] []"]
  obtain per_room where
    pr: "list_all2 (\<lambda>r es. api_validate_room r ?p = Inr es) (rooms ?p) per_room"
    and vp: "validate_project ?p =
        Inr (concat (map (\<lambda>(i, r, es). map (add_room_context i r) es)
                       (enumerate 0 (zip (rooms ?p) per_room))))"
    and ctx: "\<And>e. add_room_context 0 (api_of_room bedroom) (finding [] [] []) =
      (finding [] [] [])\<lparr>component :=
         Some (''Room '' @ str_int (int 0 + 1) @ '' ('' @ room_type (api_of_room bedroom) @ '')'' @
               (case component (finding [] [] []) of None \<Rightarrow> []
                | Some c \<Rightarrow> if c = [] then [] else '' - '' @ c))\<rparr>"
    by blast
  from pr obtain es1 es2 where
    "per_room = [es1, es2]"
    "api_validate_room (api_of_room bedroom) ?p = Inr es1"
    "api_validate_room (api_of_room fixed_bedroom) ?p = Inr es2"
    unfolding rooms by (blast dest: list_all2_two)
  then have per: "per_room =
     [[finding ''IRC R310.1''
            (''No window meets egress requirement. Required: 5.7 sq ft, '' @
             ''Largest found: 3.60 sq ft'')
            ''Bedroom''], []]"
    by (simp add: same bedroom_findings fixed_bedroom_findings)
  show ?thesis
    unfolding vp per rooms
    by (simp add: enumerate_Suc_eq add_room_context_eq finding_def str_int_small
        api_of_room_simps bedroom_def)
qed




subsection \<open>Powers of two and the binary exponent\<close>

lemma bit_length_nonneg: "0 \<le> bit_length n"
  by (induction n rule: bit_length.induct) (simp add: bit_length.simps)

lemma bit_length_pos: "1 \<le> n \<Longrightarrow> 1 \<le> bit_length n"
  using bit_length_nonneg[of "n div 2"] by (subst bit_length.simps) simp

lemma bit_length_upper: "0 \<le> n \<Longrightarrow> n < 2 ^ nat (bit_length n)"
proof (induction n rule: bit_length.induct)
  case (1 n)
  show ?case
  proof (cases "n \<le> 0")
    case True
    with 1 show ?thesis by (simp add: bit_length.simps)
  next
    case False
    then have ih: "n div 2 < 2 ^ nat (bit_length (n div 2))" using 1 by simp
    have "nat (1 + bit_length (n div 2)) = Suc (nat (bit_length (n div 2)))"
      using bit_length_nonneg[of "n div 2"] by simp
    then have "(2::int) ^ nat (bit_length n) = 2 * 2 ^ nat (bit_length (n div 2))"
      using False by (subst bit_length.simps) simp
    with ih show ?thesis by linarith
  qed
qed

lemma bit_length_lower: "1 \<le> n \<Longrightarrow> 2 ^ nat (bit_length n - 1) \<le> n"
proof (induction n rule: bit_length.induct)
  case (1 n)
  show ?case
  proof (cases "n = 1")
    case True
    then show ?thesis by (simp add: bit_length.simps)
  next
    case False
    with 1 have n: "2 \<le> n" by simp
    then have ih: "2 ^ nat (bit_length (n div 2) - 1) \<le> n div 2" using 1 by simp
    have "1 \<le> bit_length (n div 2)" using n by (intro bit_length_pos) simp
    then have "nat (1 + bit_length (n div 2) - 1) = Suc (nat (bit_length (n div 2) - 1))"
      by simp
    then have "(2::int) ^ nat (bit_length n - 1) = 2 * 2 ^ nat (bit_length (n div 2) - 1)"
      using n by (subst bit_length.simps) simp
    with ih show ?thesis by linarith
  qed
qed

lemma pow2_powr: "pow2 e = 2 powr (of_int e)"
proof (cases "0 \<le> e")
  case True
  then have "(2::real) powr (of_int e) = 2 powr (of_nat (nat e))" by simp
  also have "\<dots> = 2 ^ nat e" by (simp only: powr_realpow zero_less_numeral)
  finally show ?thesis using True by (simp add: pow2_def)
next
  case False
  then have "(2::real) powr (of_int e) = 2 powr (- of_nat (nat (- e)))" by simp
  also have "\<dots> = 1 / 2 powr (of_nat (nat (- e)))" by (simp only: powr_minus_divide)
  also have "\<dots> = 1 / 2 ^ nat (- e)" by (simp only: powr_realpow zero_less_numeral)
  finally show ?thesis using False by (simp add: pow2_def)
qed

lemma pow2_pos: "0 < pow2 e"
  by (simp add: pow2_powr)

lemma pow2_add: "pow2 (a + b) = pow2 a * pow2 b"
  by (simp add: pow2_powr powr_add)

lemma pow2_mono: "a \<le> b \<Longrightarrow> pow2 a \<le> pow2 b"
  by (simp add: pow2_powr)

lemma pow2_nat: "pow2 (int n) = 2 ^ n"
  by (simp add: pow2_def)

lemma binary_exponent_bounds:
  assumes "0 < x"
  shows "pow2 (binary_exponent x) \<le> x" and "x < pow2 (binary_exponent x + 1)"
proof -
  have "pow2 (binary_exponent x) \<le> x \<and> x < pow2 (binary_exponent x + 1)"
  proof (cases "1 \<le> x")
    case True
    define n where "n = \<lfloor>x\<rfloor>"
    have n: "1 \<le> n" using True by (simp add: n_def le_floor_iff)
    have be: "binary_exponent x = bit_length n - 1" using True by (simp add: binary_exponent_def n_def)
    have k: "1 \<le> bit_length n" using n by (rule bit_length_pos)
    have "pow2 (bit_length n - 1) = of_int (2 ^ nat (bit_length n - 1))"
      using k by (simp add: pow2_def)
    also have "\<dots> \<le> of_int n" using bit_length_lower[OF n] by (simp only: of_int_le_iff)
    also have "\<dots> \<le> x" by (simp add: n_def)
    finally have lo: "pow2 (bit_length n - 1) \<le> x" .
    have "n + 1 \<le> 2 ^ nat (bit_length n)" using bit_length_upper[of n] n by simp
    then have "real_of_int (n + 1) \<le> of_int (2 ^ nat (bit_length n))" by (simp only: of_int_le_iff)
    moreover have "x < real_of_int (n + 1)" by (simp add: n_def)
    moreover have "pow2 (bit_length n - 1 + 1) = of_int (2 ^ nat (bit_length n))"
      using k by (simp add: pow2_def)
    ultimately have "x < pow2 (bit_length n - 1 + 1)" by simp
    with lo be show ?thesis by simp
  next
    case False
    define n where "n = \<lceil>1 / x\<rceil> - 1"
    from False assms have y: "1 < 1 / x" by simp
    then have "2 \<le> \<lceil>1 / x\<rceil>" by linarith
    then have n: "1 \<le> n" by (simp add: n_def)
    have k: "1 \<le> bit_length n" using n by (rule bit_length_pos)
    have be: "binary_exponent x = - bit_length n" using False by (simp add: binary_exponent_def n_def)
    have nlt: "of_int n < 1 / x" unfolding n_def by linarith
    have nge: "1 / x \<le> of_int (n + 1)" unfolding n_def by simp
    have "n + 1 \<le> 2 ^ nat (bit_length n)" using bit_length_upper[of n] n by simp
    then have "real_of_int (n + 1) \<le> of_int (2 ^ nat (bit_length n))" by (simp only: of_int_le_iff)
    with nge have "1 / x \<le> 2 ^ nat (bit_length n)" by simp
    then have "1 \<le> x * 2 ^ nat (bit_length n)" using assms by (simp add: field_simps)
    then have "1 / 2 ^ nat (bit_length n) \<le> x" by (simp add: field_simps)
    then have lo: "pow2 (- bit_length n) \<le> x" using k by (simp add: pow2_def)
    have "real_of_int (2 ^ nat (bit_length n - 1)) \<le> of_int n"
      using bit_length_lower[OF n] by (simp only: of_int_le_iff)
    moreover have "real_of_int (2 ^ nat (bit_length n - 1)) = 2 ^ nat (bit_length n - 1)"
      by simp
    ultimately have "2 ^ nat (bit_length n - 1) < 1 / x" using nlt by linarith
    then have "x * 2 ^ nat (bit_length n - 1) < 1" using assms by (simp add: field_simps)
    then have "x < 1 / 2 ^ nat (bit_length n - 1)" by (simp add: field_simps)
    moreover have "pow2 (- bit_length n + 1) = 1 / 2 ^ nat (bit_length n - 1)"
      using k by (auto simp: pow2_def)
    ultimately have "x < pow2 (- bit_length n + 1)" by simp
    with lo be show ?thesis by simp
  qed
  then show "pow2 (binary_exponent x) \<le> x" and "x < pow2 (binary_exponent x + 1)" by simp_all
qed

lemma binary_exponent_eq:
  assumes "pow2 e \<le> x" and "x < pow2 (e + 1)"
  shows "binary_exponent x = e"
proof -
  have x: "0 < x" using assms(1) pow2_pos[of e] by linarith
  note b = binary_exponent_bounds[OF x]
  show ?thesis
  proof (rule ccontr)
    assume "binary_exponent x \<noteq> e"
    then consider "binary_exponent x + 1 \<le> e" | "e + 1 \<le> binary_exponent x" by linarith
    then show False
    proof cases
      case 1
      then have "pow2 (binary_exponent x + 1) \<le> pow2 e" by (rule pow2_mono)
      with b(2) assms(1) show False by linarith
    next
      case 2
      then have "pow2 (e + 1) \<le> pow2 (binary_exponent x)" by (rule pow2_mono)
      with b(1) assms(2) show False by linarith
    qed
  qed
qed

subsection \<open>Rounding to a double\<close>

lemma round_half_even_bounds:
  "of_int (round_half_even y) \<le> y + 1 / 2" "y - 1 / 2 \<le> of_int (round_half_even y)"
  unfolding round_half_even_def Let_def by (auto; linarith)+

lemma round_half_even_of_int: "round_half_even (of_int k) = k"
  by (simp add: round_half_even_def)

lemma round_half_even_nonneg: "0 \<le> y \<Longrightarrow> 0 \<le> round_half_even y"
  unfolding round_half_even_def Let_def by (auto; linarith)

lemma round_half_even_mono_int: "of_int k \<le> y \<Longrightarrow> k \<le> round_half_even y"
  unfolding round_half_even_def Let_def by (auto; linarith)

lemma round_to_double_normal:
  assumes "pow2 e \<le> x" and "x < pow2 (e + 1)" and "- 1022 \<le> e"
  shows "round_to_double x = of_int (round_half_even (x / pow2 (e - 52))) * pow2 (e - 52)"
proof -
  have "binary_exponent x = e" using assms(1,2) by (rule binary_exponent_eq)
  moreover have "max e (- 1022) = e" using assms(3) by simp
  ultimately show ?thesis by (simp add: round_to_double_def)
qed

lemma round_to_double_subnormal:
  assumes "0 < x" and "x < pow2 (- 1022)"
  shows "round_to_double x = of_int (round_half_even (x / pow2 (- 1074))) * pow2 (- 1074)"
proof -
  have "binary_exponent x < - 1022"
  proof (rule ccontr)
    assume "\<not> binary_exponent x < - 1022"
    then have "pow2 (- 1022) \<le> pow2 (binary_exponent x)" by (intro pow2_mono) simp
    with binary_exponent_bounds(1)[OF assms(1)] assms(2) show False by linarith
  qed
  then have "max (binary_exponent x) (- 1022) = - 1022" by simp
  then show ?thesis by (simp add: round_to_double_def)
qed

lemma round_to_double_nonneg: "0 < x \<Longrightarrow> 0 \<le> round_to_double x"
  unfolding round_to_double_def
  by (intro mult_nonneg_nonneg) (simp_all add: round_half_even_nonneg pow2_pos less_imp_le)

lemma round_to_double_le: 
  assumes "0 < x"
  shows "round_to_double x \<le> 2 * x + 1"
proof -
  define u where "u = pow2 (max (binary_exponent x) (- 1022) - 52)"
  have u: "0 < u" by (simp add: u_def pow2_pos)
  have "u \<le> x + 1"
  proof (cases "- 1022 \<le> binary_exponent x")
    case True
    then have "u = pow2 (binary_exponent x - 52)" by (simp add: u_def max_def)
    also have "\<dots> \<le> pow2 (binary_exponent x)" by (intro pow2_mono) simp
    also have "\<dots> \<le> x" using assms by (rule binary_exponent_bounds)
    finally show ?thesis by simp
  next
    case False
    then have "u = pow2 (- 1074)" by (simp add: u_def max_def)
    also have "\<dots> \<le> pow2 0" by (intro pow2_mono) simp
    finally show ?thesis using assms by (simp add: pow2_def)
  qed
  have "round_to_double x = of_int (round_half_even (x / u)) * u"
    by (simp add: round_to_double_def u_def)
  also have "\<dots> \<le> (x / u + 1 / 2) * u"
    using u round_half_even_bounds(1)[of "x / u"] by (intro mult_right_mono) simp_all
  also have "\<dots> = x + u / 2" using u by (simp add: field_simps)
  also have "\<dots> \<le> 2 * x + 1" using \<open>u \<le> x + 1\<close> assms by simp
  finally show ?thesis .
qed

subsection \<open>The nearest float\<close>

lemma fl_not_nan [simp]: "\<not> is_nan (fl x)"
  by (simp add: fl_def)

lemma fl_0 [simp]: "fl 0 = Fin 0"
  by (simp add: fl_def)

lemma fl_pos_cases:
  assumes "0 < x"
  obtains "fl x = PosInf" | v where "fl x = Fin v" and "0 \<le> v" and "v < 2 ^ 1024"
proof -
  from assms have "\<bar>x\<bar> = x" by simp
  then show ?thesis
    using assms round_to_double_nonneg[OF assms] that
    by (cases "2 ^ 1024 \<le> round_to_double x"; cases "round_to_double x = 0")
       (simp_all add: fl_def)
qed

lemma fl_pos_finite:
  assumes "0 < x" and "x < 2 ^ 1022"
  obtains v where "fl x = Fin v" and "0 \<le> v" and "v \<le> 2 * x + 1"
proof -
  from assms(1) have a: "\<bar>x\<bar> = x" by simp
  have le: "round_to_double x \<le> 2 * x + 1" using assms(1) by (rule round_to_double_le)
  have "2 * x + 1 < 2 ^ 1024" using assms(2) by simp
  with le have lt: "\<not> 2 ^ 1024 \<le> round_to_double x" by linarith
  show ?thesis
    using assms(1) round_to_double_nonneg[OF assms(1)] le lt that a
    by (cases "round_to_double x = 0") (simp_all add: fl_def)
qed

lemma fl_normal:
  assumes "pow2 e \<le> x" and "x < pow2 (e + 1)" and "- 1022 \<le> e"
    and "round_half_even (x / pow2 (e - 52)) = m"
    and "of_int m * pow2 (e - 52) = v" and "v < 2 ^ 1024"
  shows "fl x = Fin v"
proof -
  have x: "0 < x" using assms(1) pow2_pos[of e] by linarith
  have r: "round_to_double x = v"
    using round_to_double_normal[OF assms(1,2,3)] assms(4,5) by simp
  have "pow2 (e - 52) \<le> pow2 e" by (intro pow2_mono) simp
  with assms(1) have "pow2 (e - 52) \<le> x" by linarith
  then have "real_of_int 1 \<le> x / pow2 (e - 52)" using pow2_pos[of "e - 52"] by simp
  then have "1 \<le> m" using assms(4) round_half_even_mono_int by blast
  then have "0 < v" using assms(5) pow2_pos[of "e - 52"] by auto
  with x r assms(6) show ?thesis by (simp add: fl_def)
qed

lemma fl_overflow:
  assumes "pow2 e \<le> x" and "x < pow2 (e + 1)" and "1024 \<le> e"
  shows "fl x = PosInf"
proof -
  have x: "0 < x" using assms(1) pow2_pos[of e] by linarith
  have r: "round_to_double x = of_int (round_half_even (x / pow2 (e - 52))) * pow2 (e - 52)"
    using assms by (intro round_to_double_normal) simp_all
  have p: "pow2 (e - 52) * 2 ^ 52 = pow2 e"
    using pow2_add[of "e - 52" 52] pow2_nat[of 52] by simp
  have "real_of_int (2 ^ 52) = 2 ^ 52" by simp
  also have "\<dots> = pow2 e / pow2 (e - 52)" using p pow2_pos[of "e - 52"] by (simp add: field_simps)
  also have "\<dots> \<le> x / pow2 (e - 52)"
    using assms(1) pow2_pos[of "e - 52"] by (simp add: divide_right_mono)
  finally have "2 ^ 52 \<le> round_half_even (x / pow2 (e - 52))"
    by (rule round_half_even_mono_int)
  then have "real_of_int (2 ^ 52) \<le> of_int (round_half_even (x / pow2 (e - 52)))"
    by (simp only: of_int_le_iff)
  then have "2 ^ 52 * pow2 (e - 52) \<le> round_to_double x"
    unfolding r using pow2_pos[of "e - 52"] by (intro mult_right_mono) simp_all
  moreover have "pow2 1024 \<le> pow2 e" using assms(3) by (rule pow2_mono)
  moreover have "pow2 1024 = 2 ^ 1024" using pow2_nat[of 1024] by simp
  ultimately have "2 ^ 1024 \<le> round_to_double x" using p by (simp add: mult.commute)
  with x show ?thesis by (simp add: fl_def)
qed

lemma fl_of_nat_exact:
  assumes "0 < n" and "n < 2 ^ 53"
  shows "fl (of_int n) = Fin (of_int n)"
proof -
  define x :: real where "x = of_int n"
  have x: "0 < x" "1 \<le> x" using assms(1) by (simp_all add: x_def)
  define e where "e = binary_exponent x"
  note b = binary_exponent_bounds[OF x(1), folded e_def]
  have e0: "0 \<le> e"
  proof (rule ccontr)
    assume "\<not> 0 \<le> e"
    then have "pow2 (e + 1) \<le> pow2 0" by (intro pow2_mono) simp
    with b(2) x(2) show False by (simp add: pow2_def)
  qed
  have e52: "e \<le> 52"
  proof (rule ccontr)
    assume "\<not> e \<le> 52"
    then have "pow2 53 \<le> pow2 e" by (intro pow2_mono) simp
    moreover have "pow2 53 = 2 ^ 53" using pow2_nat[of 53] by simp
    moreover have "x < 2 ^ 53" using assms(2) unfolding x_def
      by (metis of_int_less_iff of_int_numeral of_int_power)
    ultimately show False using b(1) by linarith
  qed
  have pe: "pow2 (e - 52) = 1 / 2 ^ nat (52 - e)"
    using e52 by (cases "e = 52") (simp_all add: pow2_def)
  have "x / pow2 (e - 52) = of_int (n * 2 ^ nat (52 - e))" by (simp add: pe x_def)
  then have m: "round_half_even (x / pow2 (e - 52)) = n * 2 ^ nat (52 - e)"
    by (simp only: round_half_even_of_int)
  have v: "of_int (n * 2 ^ nat (52 - e)) * pow2 (e - 52) = x" by (simp add: pe x_def)
  have "x < 2 ^ 53" using assms(2) unfolding x_def
    by (metis of_int_less_iff of_int_numeral of_int_power)
  also have "(2::real) ^ 53 < 2 ^ 1024" by (intro power_strict_increasing) simp_all
  finally have "x < 2 ^ 1024" .
  moreover have "- 1022 \<le> e" using e0 by simp
  ultimately have "fl x = Fin x" using b m v by (intro fl_normal[where e = e])
  then show ?thesis by (simp add: x_def)
qed

lemma fl_numeral_exact: "numeral k < (2::int) ^ 53 \<Longrightarrow> fl (numeral k) = Fin (numeral k)"
  using fl_of_nat_exact[of "numeral k"] by simp

subsection \<open>Operations on finite floats\<close>

lemma fmul_Fin: "a \<noteq> 0 \<Longrightarrow> b \<noteq> 0 \<Longrightarrow> fmul (Fin a) (Fin b) = fl (a * b)"
  by (simp add: fmul_def)

lemma fdiv_Fin: "a \<noteq> 0 \<Longrightarrow> b \<noteq> 0 \<Longrightarrow> fdiv (Fin a) (Fin b) = fl (a / b)"
  by (simp add: fdiv_def)

lemma fadd_Fin: "a + b \<noteq> 0 \<Longrightarrow> fadd (Fin a) (Fin b) = fl (a + b)"
  by (auto simp: fadd_def)

lemma fsub_Fin: "b \<noteq> 0 \<Longrightarrow> a - b \<noteq> 0 \<Longrightarrow> fsub (Fin a) (Fin b) = fl (a - b)"
  by (auto simp: fsub_def fadd_def)

lemma fsub_Fin_0: "fsub (Fin a) (Fin 0) = (if a = 0 then Fin 0 else fl a)"
  by (auto simp: fsub_def fadd_def)

lemma fmul_FinI: "fl (a * b) = c \<Longrightarrow> a \<noteq> 0 \<Longrightarrow> b \<noteq> 0 \<Longrightarrow> fmul (Fin a) (Fin b) = c"
  by (simp add: fmul_def)

lemma fdiv_FinI: "fl (a / b) = c \<Longrightarrow> a \<noteq> 0 \<Longrightarrow> b \<noteq> 0 \<Longrightarrow> fdiv (Fin a) (Fin b) = c"
  by (simp add: fdiv_def)

lemma fadd_FinI: "fl (a + b) = c \<Longrightarrow> a + b \<noteq> 0 \<Longrightarrow> fadd (Fin a) (Fin b) = c"
  by (auto simp: fadd_def)

lemma flt_Fin: "flt (Fin a) (Fin b) \<longleftrightarrow> a < b"
  by (simp add: flt_def)

lemma fle_Fin: "fle (Fin a) (Fin b) \<longleftrightarrow> a \<le> b"
  by (simp add: fle_def)

lemma fgt_Fin: "fgt (Fin a) (Fin b) \<longleftrightarrow> b < a"
  by (simp add: fgt_def flt_def)

lemma fge_Fin: "fge (Fin a) (Fin b) \<longleftrightarrow> b \<le> a"
  by (simp add: fge_def fle_def)

lemma fl_gt0_cases:
  assumes "fgt (fl x) (Fin 0)"
  obtains "fl x = PosInf" | v where "fl x = Fin v" and "0 < v" and "v < 2 ^ 1024"
proof -
  have x: "0 < x"
  proof (rule ccontr)
    assume "\<not> 0 < x"
    then consider "x = 0" | "x < 0" by linarith
    then show False
    proof cases
      case 1
      with assms show False by (simp add: fgt_Fin)
    next
      case 2
      then have "0 < - x" by simp
      then have "0 \<le> round_to_double (- x)" by (rule round_to_double_nonneg)
      moreover have "\<bar>x\<bar> = - x" using 2 by simp
      ultimately show False using assms 2
        by (simp add: fl_def fgt_def flt_def split: if_splits)
    qed
  qed
  then show ?thesis
  proof (cases rule: fl_pos_cases)
    case 1
    then show ?thesis by (rule that(1))
  next
    case (2 v)
    with assms have "0 < v" by (simp add: fgt_Fin)
    with 2 show ?thesis by (intro that(2)[of v])
  qed
qed

lemma float_of_int_16: "float_of_int 16 = Inr (Fin 16)"
  using fl_numeral_exact[of "num.Bit0 (num.Bit0 (num.Bit0 (num.Bit0 num.One)))"]
  by (simp add: float_of_int_def)

lemma float_of_int_24: "float_of_int 24 = Inr (Fin 24)"
  using fl_numeral_exact[of "num.Bit0 (num.Bit0 (num.Bit0 (num.Bit1 num.One)))"]
  by (simp add: float_of_int_def)

lemma float_of_int_0: "float_of_int 0 = Inr (Fin 0)"
  by (simp add: float_of_int_def)

text \<open>The quotient of a finite run by the stud spacing is a finite float that is not
  negative, and its integer part still converts to a float.\<close>

lemma run_quotient:
  assumes "fgt (fl x) (Fin 0)" and "is_finite (fmul (fl x) (Fin 12))" and "16 \<le> s"
  obtains q where "fdiv (fmul (fl x) (Fin 12)) (Fin s) = Fin q" and "0 \<le> q"
    and "q + 4 < 2 ^ 1022"
proof -
  from assms(1) obtain v where v: "fl x = Fin v" "0 < v"
  proof (cases rule: fl_gt0_cases)
    case 1
    with assms(2) show ?thesis by (simp add: fmul_def is_finite_def)
  next
    case (2 v)
    then show ?thesis using that by blast
  qed
  have m: "fmul (fl x) (Fin 12) = fl (v * 12)" using v by (simp add: fmul_Fin)
  have "0 < v * 12" using v by simp
  then obtain p where p: "fl (v * 12) = Fin p" "0 \<le> p" "p < 2 ^ 1024"
  proof (cases rule: fl_pos_cases)
    case 1
    with assms(2) m show ?thesis by (simp add: is_finite_def)
  next
    case (2 p)
    then show ?thesis using that by blast
  qed
  show ?thesis
  proof (cases "p = 0")
    case True
    with m p assms(3) have "fdiv (fmul (fl x) (Fin 12)) (Fin s) = Fin 0"
      by (simp add: fdiv_def)
    then show ?thesis by (rule that) simp_all
  next
    case False
    with p have p0: "0 < p" by simp
    have "p / s \<le> p / 16" using assms(3) p0 by (intro divide_left_mono) simp_all
    moreover have "p / 16 < 2 ^ 1020" using p(3) by simp
    ultimately have ps: "p / s < 2 ^ 1020" by linarith
    have d: "fdiv (fmul (fl x) (Fin 12)) (Fin s) = fl (p / s)"
      using m p False assms(3) by (simp add: fdiv_Fin)
    have "0 < p / s" using p0 assms(3) by simp
    moreover have "(2::real) ^ 1020 < 2 ^ 1022" by simp
    then have "p / s < 2 ^ 1022" using ps by linarith
    ultimately obtain q where q: "fl (p / s) = Fin q" "0 \<le> q" "q \<le> 2 * (p / s) + 1"
      by (rule fl_pos_finite[of "p / s"])
    have "2 * (2::real) ^ 1020 + 1 + 4 < 2 ^ 1022" by simp
    with q(3) ps have "q + 4 < 2 ^ 1022" by linarith
    with d q(1,2) show ?thesis by (intro that[of q]) simp_all
  qed
qed

lemma float_of_int_small:
  assumes "0 < n" and "real_of_int n < 2 ^ 1022"
  shows "float_of_int n = Inr (fl (of_int n))" and "is_finite (fl (of_int n))"
proof -
  have "0 < real_of_int n" using assms(1) by simp
  then obtain v where "fl (of_int n) = Fin v" using assms(2) by (rule fl_pos_finite)
  then show "float_of_int n = Inr (fl (of_int n))" and "is_finite (fl (of_int n))"
    by (simp_all add: float_of_int_def is_finite_def)
qed

subsection \<open>Materials of a wall on doubles\<close>

lemma float_of_int_spacing:
  "s = 16 \<or> s = 24 \<Longrightarrow> float_of_int s = Inr (Fin (of_int s))"
  using float_of_int_16 float_of_int_24 by auto

lemma wall_arithmetic_finite:
  assumes "fgt (fl x) (Fin 0)" and "is_finite (fmul (fl x) (Fin 12))" and "s = 16 \<or> s = 24"
  shows "\<exists>q. float_of_int s = Inr (Fin (of_int s)) \<and>
           py_truediv_f64 (fmul (fl x) (Fin 12)) (Fin (of_int s))
             = Inr (fdiv (fmul (fl x) (Fin 12)) (Fin (of_int s))) \<and>
           fdiv (fmul (fl x) (Fin 12)) (Fin (of_int s)) = Fin q \<and>
           py_int_f64 (Fin q) = Inr \<lfloor>q\<rfloor> \<and>
           float_of_int (\<lfloor>q\<rfloor> + 1 + 3) = Inr (fl (of_int (\<lfloor>q\<rfloor> + 1 + 3)))"
proof -
  have s: "(16::real) \<le> of_int s" "of_int s \<noteq> (0::real)" using assms(3) by auto
  from assms(1,2) s(1) obtain q where
    q: "fdiv (fmul (fl x) (Fin 12)) (Fin (of_int s)) = Fin q" "0 \<le> q" "q + 4 < 2 ^ 1022"
    by (rule run_quotient)
  have n: "0 \<le> \<lfloor>q\<rfloor>" using q(2) by (simp only: zero_le_floor)
  have "real_of_int (\<lfloor>q\<rfloor> + 1 + 3) \<le> q + 4" by simp
  with q(3) have "real_of_int (\<lfloor>q\<rfloor> + 1 + 3) < 2 ^ 1022" by linarith
  moreover have "0 < \<lfloor>q\<rfloor> + 1 + 3" using n by linarith
  ultimately have f: "float_of_int (\<lfloor>q\<rfloor> + 1 + 3) = Inr (fl (of_int (\<lfloor>q\<rfloor> + 1 + 3)))"
    by (intro float_of_int_small(1))
  have "py_int_f64 (Fin q) = Inr \<lfloor>q\<rfloor>" using q(2) by (simp add: py_int_f64_def py_int_def)
  with q(1) f s(2) float_of_int_spacing[OF assms(3)] show ?thesis
    by (simp add: py_truediv_f64_def)
qed

lemma wall_arithmetic_overflow:
  assumes "fgt (fl x) (Fin 0)" and "\<not> is_finite (fmul (fl x) (Fin 12))" and "s = 16 \<or> s = 24"
  shows "float_of_int s = Inr (Fin (of_int s)) \<and>
         py_truediv_f64 (fmul (fl x) (Fin 12)) (Fin (of_int s)) = Inr PosInf \<and>
         py_int_f64 PosInf = Inl (OverflowError ''cannot convert float infinity to integer'')"
proof -
  have s: "of_int s \<noteq> (0::real)" "0 < (of_int s :: real)" using assms(3) by auto
  have "fmul (fl x) (Fin 12) = PosInf"
    using assms(1)
  proof (cases rule: fl_gt0_cases)
    case 1
    then show ?thesis by (simp add: fmul_def)
  next
    case (2 v)
    then have m: "fmul (fl x) (Fin 12) = fl (v * 12)" by (simp add: fmul_Fin)
    have "0 < v * 12" using 2 by simp
    then show ?thesis
    proof (cases rule: fl_pos_cases)
      case 1
      with m show ?thesis by simp
    next
      case (2 p)
      with m assms(2) show ?thesis by (simp add: is_finite_def)
    qed
  qed
  moreover have "fdiv PosInf (Fin (of_int s)) = PosInf" using s by (simp add: fdiv_def)
  ultimately show ?thesis
    using s float_of_int_spacing[OF assms(3)] by (simp add: py_truediv_f64_def py_int_f64_def)
qed

lemma stud_spacing_inches_16_24: "stud_spacing_inches w = 16 \<or> stud_spacing_inches w = 24"
  by (cases "framing_type w") (simp_all add: stud_spacing_inches_cases)

lemma api_stud_spacing_inches_16_24:
  "api_stud_spacing_inches w = 16 \<or> api_stud_spacing_inches w = 24"
  by (simp add: api_stud_spacing_inches_def Let_def)

lemma calculate_wall_materials_f64_eq:
  assumes "fgt (fl (length_feet w)) (Fin 0)" and "run_is_finite w"
  shows "calculate_wall_materials_f64 w =
     Inr [(''studs_count'',
             PyInt (\<lfloor>fval (fdiv (fmul (fl (length_feet w)) (Fin 12))
                               (Fin (of_int (stud_spacing_inches w))))\<rfloor> + 1 + 3)),
          (''stud_linear_feet'',
             PyFloat (fmul (fl (of_int (\<lfloor>fval (fdiv (fmul (fl (length_feet w)) (Fin 12))
                               (Fin (of_int (stud_spacing_inches w))))\<rfloor> + 1 + 3)))
                        (fl (height_feet w)))),
          (''top_plate_lf'', PyFloat (fmul (fl (length_feet w)) (Fin 2))),
          (''bottom_plate_lf'', PyFloat (fl (length_feet w))),
          (''sheathing_sqft'', PyFloat (area_sqft_f64 w)),
          (''drywall_sqft'', PyFloat (area_sqft_f64 w)),
          (''insulation_sqft'', PyFloat (net_area_sqft_f64 w)),
          (''gravel_cubic_yards'',
             PyFloat (if is_exterior w
                      then fdiv (fmul (fmul (fl (length_feet w)) (Fin 2)) (Fin (1 / 2))) (Fin 27)
                      else Fin 0))]"
proof -
  from assms(2) have "is_finite (fmul (fl (length_feet w)) (Fin 12))"
    by (simp add: run_is_finite_def)
  from wall_arithmetic_finite[OF assms(1) this stud_spacing_inches_16_24[of w]]
  obtain q where
    "float_of_int (stud_spacing_inches w) = Inr (Fin (of_int (stud_spacing_inches w)))"
    "py_truediv_f64 (fmul (fl (length_feet w)) (Fin 12)) (Fin (of_int (stud_spacing_inches w)))
       = Inr (fdiv (fmul (fl (length_feet w)) (Fin 12)) (Fin (of_int (stud_spacing_inches w))))"
    "fdiv (fmul (fl (length_feet w)) (Fin 12)) (Fin (of_int (stud_spacing_inches w))) = Fin q"
    "py_int_f64 (Fin q) = Inr \<lfloor>q\<rfloor>"
    "float_of_int (\<lfloor>q\<rfloor> + 1 + 3) = Inr (fl (of_int (\<lfloor>q\<rfloor> + 1 + 3)))"
    by blast
  then show ?thesis
    by (simp add: calculate_wall_materials_f64_def Let_def)
qed

lemma calculate_wall_materials_f64_overflow:
  assumes "fgt (fl (length_feet w)) (Fin 0)" and "\<not> run_is_finite w"
  shows "calculate_wall_materials_f64 w =
           Inl (OverflowError ''cannot convert float infinity to integer'')"
proof -
  from assms(2) have "\<not> is_finite (fmul (fl (length_feet w)) (Fin 12))"
    by (simp add: run_is_finite_def)
  from wall_arithmetic_overflow[OF assms(1) this stud_spacing_inches_16_24[of w]]
  show ?thesis by (simp add: calculate_wall_materials_f64_def)
qed

lemma api_calculate_wall_materials_f64_eq:
  assumes "fgt (fl (length_feet w)) (Fin 0)" and "run_is_finite w"
  shows "api_calculate_wall_materials_f64 w =
     Inr [(''studs_count'',
             PyInt (\<lfloor>fval (fdiv (fmul (fl (length_feet w)) (Fin 12))
                               (Fin (of_int (api_stud_spacing_inches w))))\<rfloor> + 1 + 3)),
          (''stud_linear_feet'',
             PyFloat (fmul (fl (of_int (\<lfloor>fval (fdiv (fmul (fl (length_feet w)) (Fin 12))
                               (Fin (of_int (api_stud_spacing_inches w))))\<rfloor> + 1 + 3)))
                        (fl (height_feet w)))),
          (''top_plate_lf'', PyFloat (fmul (fl (length_feet w)) (Fin 2))),
          (''bottom_plate_lf'', PyFloat (fl (length_feet w))),
          (''sheathing_sqft'', PyFloat (api_area_sqft_f64 w)),
          (''drywall_sqft'', PyFloat (api_area_sqft_f64 w)),
          (''insulation_sqft'', PyFloat (api_net_area_sqft_f64 w)),
          (''gravel_cubic_yards'',
             PyFloat (if is_exterior w
                      then fdiv (fmul (fmul (fl (length_feet w)) (Fin 2)) (Fin (1 / 2))) (Fin 27)
                      else Fin 0))]"
proof -
  from assms(2) have "is_finite (fmul (fl (length_feet w)) (Fin 12))"
    by (simp add: run_is_finite_def)
  from wall_arithmetic_finite[OF assms(1) this api_stud_spacing_inches_16_24[of w]]
  obtain q where
    "float_of_int (api_stud_spacing_inches w) = Inr (Fin (of_int (api_stud_spacing_inches w)))"
    "py_truediv_f64 (fmul (fl (length_feet w)) (Fin 12))
         (Fin (of_int (api_stud_spacing_inches w)))
       = Inr (fdiv (fmul (fl (length_feet w)) (Fin 12))
                (Fin (of_int (api_stud_spacing_inches w))))"
    "fdiv (fmul (fl (length_feet w)) (Fin 12)) (Fin (of_int (api_stud_spacing_inches w)))
       = Fin q"
    "py_int_f64 (Fin q) = Inr \<lfloor>q\<rfloor>"
    "float_of_int (\<lfloor>q\<rfloor> + 1 + 3) = Inr (fl (of_int (\<lfloor>q\<rfloor> + 1 + 3)))"
    by blast
  then show ?thesis
    by (simp add: api_calculate_wall_materials_f64_def Let_def)
qed

lemma api_calculate_wall_materials_f64_overflow:
  assumes "fgt (fl (length_feet w)) (Fin 0)" and "\<not> run_is_finite w"
  shows "api_calculate_wall_materials_f64 w =
           Inl (OverflowError ''cannot convert float infinity to integer'')"
proof -
  from assms(2) have "\<not> is_finite (fmul (fl (length_feet w)) (Fin 12))"
    by (simp add: run_is_finite_def)
  from wall_arithmetic_overflow[OF assms(1) this api_stud_spacing_inches_16_24[of w]]
  show ?thesis by (simp add: api_calculate_wall_materials_f64_def)
qed

subsection \<open>Walls at the limits of the arithmetic\<close>

lemma fl_5: "fl 5 = Fin 5"
  by (rule fl_normal[where e = 2 and m = 5629499534213120])
     (simp_all add: pow2_def round_half_even_def Let_def)

lemma fl_8: "fl 8 = Fin 8"
  by (rule fl_normal[where e = 3 and m = 4503599627370496])
     (simp_all add: pow2_def round_half_even_def Let_def)

lemma fl_10: "fl 10 = Fin 10"
  by (rule fl_normal[where e = 3 and m = 5629499534213120])
     (simp_all add: pow2_def round_half_even_def Let_def)

lemma fl_11: "fl 11 = Fin 11"
  by (rule fl_normal[where e = 3 and m = 6192449487634432])
     (simp_all add: pow2_def round_half_even_def Let_def)

lemma fl_12: "fl 12 = Fin 12"
  by (rule fl_normal[where e = 3 and m = 6755399441055744])
     (simp_all add: pow2_def round_half_even_def Let_def)

lemma fl_19: "fl 19 = Fin 19"
  by (rule fl_normal[where e = 4 and m = 5348024557502464])
     (simp_all add: pow2_def round_half_even_def Let_def)

lemma fl_half: "fl (1 / 2) = Fin (1 / 2)"
  by (rule fl_normal[where e = "- 1" and m = 4503599627370496])
     (simp_all add: pow2_def round_half_even_def Let_def)

lemma fl_5_5: "fl (11 / 2) = Fin (11 / 2)"
  by (rule fl_normal[where e = 2 and m = 6192449487634432])
     (simp_all add: pow2_def round_half_even_def Let_def)

lemma fl_0_6: "fl (3 / 5) = Fin (5404319552844595 / 9007199254740992)"
  by (rule fl_normal[where e = "- 1" and m = 5404319552844595])
     (simp_all add: pow2_def round_half_even_def Let_def)

lemma fl_0_45: "fl (9 / 20) = Fin (8106479329266893 / 18014398509481984)"
  by (rule fl_normal[where e = "- 2" and m = 8106479329266893])
     (simp_all add: pow2_def round_half_even_def Let_def)

lemma fl_short_length: "fl (13333333333333333 / 10000000000000000) = Fin (6004799503160661 / 4503599627370496)"
  by (rule fl_normal[where e = 0 and m = 6004799503160661])
     (simp_all add: pow2_def round_half_even_def Let_def)

lemma fmul_short_run: "fmul (Fin (6004799503160661 / 4503599627370496)) (Fin 12) = Fin 16"
  by (rule fmul_FinI, rule fl_normal[where e = 3 and m = 9007199254740992])
     (simp_all add: pow2_def round_half_even_def Let_def)

lemma fdiv_short_run: "fdiv (Fin 16) (Fin 16) = Fin 1"
  by (rule fdiv_FinI, rule fl_normal[where e = 0 and m = 4503599627370496])
     (simp_all add: pow2_def round_half_even_def Let_def)

lemma fmul_short_studs: "fmul (Fin 5) (Fin 8) = Fin 40"
  by (rule fmul_FinI, rule fl_normal[where e = 5 and m = 5629499534213120])
     (simp_all add: pow2_def round_half_even_def Let_def)

lemma fmul_short_top: "fmul (Fin (6004799503160661 / 4503599627370496)) (Fin 2) = Fin (6004799503160661 / 2251799813685248)"
  by (rule fmul_FinI, rule fl_normal[where e = 1 and m = 6004799503160661])
     (simp_all add: pow2_def round_half_even_def Let_def)

lemma fmul_short_area: "fmul (Fin (6004799503160661 / 4503599627370496)) (Fin 8) = Fin (6004799503160661 / 562949953421312)"
  by (rule fmul_FinI, rule fl_normal[where e = 3 and m = 6004799503160661])
     (simp_all add: pow2_def round_half_even_def Let_def)

lemma fmul_short_trench: "fmul (Fin (6004799503160661 / 2251799813685248)) (Fin (1 / 2)) = Fin (6004799503160661 / 4503599627370496)"
  by (rule fmul_FinI, rule fl_normal[where e = 0 and m = 6004799503160661])
     (simp_all add: pow2_def round_half_even_def Let_def)

lemma fdiv_short_gravel: "fdiv (Fin (6004799503160661 / 4503599627370496)) (Fin 27) = Fin (222399981598543 / 4503599627370496)"
  by (rule fdiv_FinI, rule fl_normal[where e = "- 5" and m = 7116799411153376])
     (simp_all add: pow2_def round_half_even_def Let_def)

lemma fmul_east_run: "fmul (Fin 10) (Fin 12) = Fin 120"
  by (rule fmul_FinI, rule fl_normal[where e = 6 and m = 8444249301319680])
     (simp_all add: pow2_def round_half_even_def Let_def)

lemma fdiv_east_run: "fdiv (Fin 120) (Fin 16) = Fin (15 / 2)"
  by (rule fdiv_FinI, rule fl_normal[where e = 2 and m = 8444249301319680])
     (simp_all add: pow2_def round_half_even_def Let_def)

lemma fmul_east_studs: "fmul (Fin 11) (Fin 8) = Fin 88"
  by (rule fmul_FinI, rule fl_normal[where e = 6 and m = 6192449487634432])
     (simp_all add: pow2_def round_half_even_def Let_def)

lemma fmul_east_top: "fmul (Fin 10) (Fin 2) = Fin 20"
  by (rule fmul_FinI, rule fl_normal[where e = 4 and m = 5629499534213120])
     (simp_all add: pow2_def round_half_even_def Let_def)

lemma fl_short_area: "fl (6004799503160661 / 562949953421312) = Fin (6004799503160661 / 562949953421312)"
  by (rule fl_normal[where e = 3 and m = 6004799503160661])
     (simp_all add: pow2_def round_half_even_def Let_def)

lemma fl_huge_length: "fl (10 ^ 308) = Fin (5010420900022432 * 2 ^ 971)"
  by (rule fl_normal[where e = 1023 and m = 5010420900022432])
     (simp_all add: pow2_def round_half_even_def Let_def)

lemma fmul_huge_run: "fmul (Fin (5010420900022432 * 2 ^ 971)) (Fin 12) = PosInf"
  by (rule fmul_FinI, rule fl_overflow[where e = 1026]) (simp_all add: pow2_def)

lemma exterior_layers_valid: "list_all MaterialLayer_valid_f64 exterior_layers"
  by (simp add: exterior_layers_def MaterialLayer_valid_f64_def fl_half fl_5_5 fl_0_6 fl_19
      fl_0_45 fgt_Fin fge_Fin)

lemma short_wall_valid: "Wall_valid_f64 short_wall"
  by (simp add: Wall_valid_f64_def short_wall_def validate_height_f64_def fl_short_length
      fl_8 fgt_Fin flt_Fin exterior_layers_valid)

lemma short_wall_run: "run_is_finite short_wall"
  by (simp add: run_is_finite_def short_wall_def fl_short_length fmul_short_run is_finite_def)

lemma short_wall_materials:
  "calculate_wall_materials_f64 short_wall =
     Inr [(''studs_count'', PyInt 5),
          (''stud_linear_feet'', PyFloat (Fin 40)),
          (''top_plate_lf'', PyFloat (Fin (6004799503160661 / 2251799813685248))),
          (''bottom_plate_lf'', PyFloat (Fin (6004799503160661 / 4503599627370496))),
          (''sheathing_sqft'', PyFloat (Fin (6004799503160661 / 562949953421312))),
          (''drywall_sqft'', PyFloat (Fin (6004799503160661 / 562949953421312))),
          (''insulation_sqft'', PyFloat (Fin (6004799503160661 / 562949953421312))),
          (''gravel_cubic_yards'', PyFloat (Fin (222399981598543 / 4503599627370496)))]"
proof -
  have f: "length_feet short_wall = 13333333333333333 / 10000000000000000"
    "height_feet short_wall = 8" "is_exterior short_wall" "windows short_wall = []"
    "stud_spacing_inches short_wall = 16"
    by (simp_all add: short_wall_def stud_spacing_inches_cases)
  have a: "area_sqft_f64 short_wall = Fin (6004799503160661 / 562949953421312)"
    by (simp add: area_sqft_f64_def f fl_short_length fl_8 fmul_short_area)
  have n: "net_area_sqft_f64 short_wall = Fin (6004799503160661 / 562949953421312)"
    by (simp add: net_area_sqft_f64_def a f py_sum_f64_def fsub_Fin_0 fl_short_area)
  show ?thesis
    unfolding calculate_wall_materials_f64_eq[OF short_wall_valid[unfolded Wall_valid_f64_def, THEN conjunct1] short_wall_run]
    by (simp add: f a n fl_short_length fl_8 fl_5 fmul_short_run fdiv_short_run
        fmul_short_studs fmul_short_top fmul_short_trench fdiv_short_gravel)
qed

lemma huge_wall_length: "fl (length_feet huge_wall) = Fin (5010420900022432 * 2 ^ 971)"
  by (simp only: huge_wall_def Wall.select_convs fl_huge_length)

lemma huge_wall_valid: "Wall_valid_f64 huge_wall"
proof -
  have "fgt (fl (length_feet huge_wall)) (Fin 0)"
    by (simp only: huge_wall_length fgt_Fin) simp
  moreover have "height_feet huge_wall = 8" "layers huge_wall = exterior_layers"
    "windows huge_wall = []"
    by (simp_all add: huge_wall_def)
  ultimately show ?thesis
    by (simp add: Wall_valid_f64_def validate_height_f64_def fl_8 fgt_Fin flt_Fin
        exterior_layers_valid)
qed

lemma huge_wall_run: "\<not> run_is_finite huge_wall"
  by (simp only: run_is_finite_def huge_wall_length fmul_huge_run is_finite_def) simp

lemma huge_wall_materials:
  "calculate_wall_materials_f64 huge_wall =
     Inl (OverflowError ''cannot convert float infinity to integer'')"
  using huge_wall_valid huge_wall_run
  by (intro calculate_wall_materials_f64_overflow) (simp_all add: Wall_valid_f64_def)

lemma east_wall_valid: "Wall_valid_f64 east_wall"
  by (simp add: Wall_valid_f64_def east_wall_def validate_height_f64_def fl_10
      fl_8 fgt_Fin flt_Fin exterior_layers_valid)

lemma east_wall_run: "run_is_finite east_wall"
  by (simp add: run_is_finite_def east_wall_def fl_10 fmul_east_run is_finite_def)

text \<open>
  Claim C3 (amended). For a wall within the bounds of the data model, on doubles:
  when the run \<^verbatim>\<open>length_feet * 12\<close> is a finite double, the stud count is the integer part
  of the double quotient of the run by the spacing (each of the product and the quotient
  rounded to the nearest double), plus one, plus three plates; the stud length is the double
  product of that count and the wall height; the top plate is the double product of the
  length and 2 and the bottom plate is the length. When the run is not a finite double, the
  call raises OverflowError and returns nothing. The spacing is 16 for the two
  \<^verbatim>\<open>16oc\<close> framing types and 24 for the two \<^verbatim>\<open>24oc\<close> ones.
\<close>

theorem wall_materials_framing_f64:
  assumes "Wall_valid_f64 w"
  shows "(if run_is_finite w
          then \<exists>m. calculate_wall_materials_f64 w = Inr m \<and>
                 map_of m ''studs_count'' =
                   Some (PyInt (\<lfloor>fval (fdiv (fmul (fl (length_feet w)) (Fin 12))
                                         (Fin (of_int (stud_spacing_inches w))))\<rfloor> + 1 + 3)) \<and>
                 map_of m ''stud_linear_feet'' =
                   Some (PyFloat
                     (fmul (fl (of_int (\<lfloor>fval (fdiv (fmul (fl (length_feet w)) (Fin 12))
                                         (Fin (of_int (stud_spacing_inches w))))\<rfloor> + 1 + 3)))
                        (fl (height_feet w)))) \<and>
                 map_of m ''top_plate_lf'' = Some (PyFloat (fmul (fl (length_feet w)) (Fin 2))) \<and>
                 map_of m ''bottom_plate_lf'' = Some (PyFloat (fl (length_feet w)))
          else calculate_wall_materials_f64 w =
                 Inl (OverflowError ''cannot convert float infinity to integer'')) \<and>
         stud_spacing_inches w =
           (case framing_type w of STUD_2x4_16OC \<Rightarrow> 16 | STUD_2x6_16OC \<Rightarrow> 16
            | STUD_2x4_24OC \<Rightarrow> 24 | STUD_2x6_24OC \<Rightarrow> 24)"
proof -
  from assms have l: "fgt (fl (length_feet w)) (Fin 0)" by (simp add: Wall_valid_f64_def)
  show ?thesis
  proof (cases "run_is_finite w")
    case True
    with l stud_spacing_inches_cases[of w] show ?thesis
      by (simp add: calculate_wall_materials_f64_eq)
  next
    case False
    with l stud_spacing_inches_cases[of w] show ?thesis
      by (simp add: calculate_wall_materials_f64_overflow)
  qed
qed

text \<open>A wall of 1.3333333333333333 feet at 16 inches on centre: the run rounds to 16.0
  inches, which gives 1 + 1 + 3 = 5 studs of 8 feet. The east wall of the demonstration
  bedroom: 120 inches over 16 are 7.5, which gives 7 + 1 + 3 = 11 studs. A wall of 1e308
  feet: no result.\<close>

theorem wall_materials_framing_f64_examples:
  "Wall_valid_f64 short_wall \<and> run_is_finite short_wall \<and>
   (\<exists>m. calculate_wall_materials_f64 short_wall = Inr m \<and>
        map_of m ''studs_count'' = Some (PyInt 5) \<and>
        map_of m ''stud_linear_feet'' = Some (PyFloat (Fin 40)) \<and>
        map_of m ''top_plate_lf'' = Some (PyFloat (Fin (6004799503160661 / 2251799813685248))) \<and>
        map_of m ''bottom_plate_lf'' =
          Some (PyFloat (Fin (6004799503160661 / 4503599627370496)))) \<and>
   Wall_valid_f64 east_wall \<and> run_is_finite east_wall \<and>
   (\<exists>m. calculate_wall_materials_f64 east_wall = Inr m \<and>
        map_of m ''studs_count'' = Some (PyInt 11) \<and>
        map_of m ''stud_linear_feet'' = Some (PyFloat (Fin 88)) \<and>
        map_of m ''top_plate_lf'' = Some (PyFloat (Fin 20)) \<and>
        map_of m ''bottom_plate_lf'' = Some (PyFloat (Fin 10))) \<and>
   Wall_valid_f64 huge_wall \<and> \<not> run_is_finite huge_wall \<and>
   calculate_wall_materials_f64 huge_wall =
     Inl (OverflowError ''cannot convert float infinity to integer'')"
proof -
  have s: "length_feet short_wall = 13333333333333333 / 10000000000000000"
    "height_feet short_wall = 8" "stud_spacing_inches short_wall = 16"
    by (simp_all add: short_wall_def stud_spacing_inches_cases)
  have e: "length_feet east_wall = 10" "height_feet east_wall = 8"
    "stud_spacing_inches east_wall = 16"
    by (simp_all add: east_wall_def stud_spacing_inches_cases)
  have "\<exists>m. calculate_wall_materials_f64 short_wall = Inr m \<and>
        map_of m ''studs_count'' = Some (PyInt 5) \<and>
        map_of m ''stud_linear_feet'' = Some (PyFloat (Fin 40)) \<and>
        map_of m ''top_plate_lf'' = Some (PyFloat (Fin (6004799503160661 / 2251799813685248))) \<and>
        map_of m ''bottom_plate_lf'' =
          Some (PyFloat (Fin (6004799503160661 / 4503599627370496)))"
    using wall_materials_framing_f64[OF short_wall_valid, THEN conjunct1]
    by (simp add: short_wall_run s fl_short_length fmul_short_run fdiv_short_run fl_5 fl_8
        fmul_short_studs fmul_short_top)
  moreover have "\<exists>m. calculate_wall_materials_f64 east_wall = Inr m \<and>
        map_of m ''studs_count'' = Some (PyInt 11) \<and>
        map_of m ''stud_linear_feet'' = Some (PyFloat (Fin 88)) \<and>
        map_of m ''top_plate_lf'' = Some (PyFloat (Fin 20)) \<and>
        map_of m ''bottom_plate_lf'' = Some (PyFloat (Fin 10))"
    using wall_materials_framing_f64[OF east_wall_valid, THEN conjunct1]
    by (simp add: east_wall_run e fl_10 fmul_east_run fdiv_east_run fl_11 fl_8
        fmul_east_studs fmul_east_top)
  moreover have "calculate_wall_materials_f64 huge_wall =
     Inl (OverflowError ''cannot convert float infinity to integer'')"
    using wall_materials_framing_f64[OF huge_wall_valid, THEN conjunct1]
    by (simp add: huge_wall_run)
  ultimately show ?thesis
    using short_wall_valid short_wall_run east_wall_valid east_wall_run huge_wall_valid
      huge_wall_run
    by blast
qed

text \<open>
  Claim C3 as stated fails twice. The wall of 1e308 feet is within the bounds of the data
  model and the call raises OverflowError. The wall of 1.3333333333333333 feet gets 5
  studs and 40 feet of stud, where the floor of the exact quotient gives 0 + 1 + 3 = 4.
\<close>

theorem wall_materials_framing_counterexample:
  "Wall_valid_f64 huge_wall \<and>
   calculate_wall_materials_f64 huge_wall =
     Inl (OverflowError ''cannot convert float infinity to integer'') \<and>
   Wall_valid_f64 short_wall \<and>
   calculate_wall_materials_f64 short_wall =
     Inr [(''studs_count'', PyInt 5),
          (''stud_linear_feet'', PyFloat (Fin 40)),
          (''top_plate_lf'', PyFloat (Fin (6004799503160661 / 2251799813685248))),
          (''bottom_plate_lf'', PyFloat (Fin (6004799503160661 / 4503599627370496))),
          (''sheathing_sqft'', PyFloat (Fin (6004799503160661 / 562949953421312))),
          (''drywall_sqft'', PyFloat (Fin (6004799503160661 / 562949953421312))),
          (''insulation_sqft'', PyFloat (Fin (6004799503160661 / 562949953421312))),
          (''gravel_cubic_yards'', PyFloat (Fin (222399981598543 / 4503599627370496)))] \<and>
   \<lfloor>length_feet short_wall * 12 / of_int (stud_spacing_inches short_wall)\<rfloor> + 1 + 3 = 4"
proof -
  have "\<lfloor>length_feet short_wall * 12 / of_int (stud_spacing_inches short_wall)\<rfloor> + 1 + 3 = 4"
    by (simp add: short_wall_def stud_spacing_inches_cases)
  with huge_wall_valid huge_wall_materials short_wall_valid short_wall_materials
  show ?thesis by blast
qed

end
